theory Spec2Isabelle
  imports Complex_Main "HOL-Library.AList"
begin

section \<open>Numbers, messages and errors\<close>

text \<open>
  The program computes with IEEE double precision numbers (Python floats and numpy
  arrays of them). They are modelled as real numbers, so rounding, overflow and
  underflow are idealised away. The special values stay in the model, because numpy
  produces them without raising wherever an array is divided by zero: a positive
  number over zero is \<open>PInf\<close>, a negative one \<open>NInf\<close>, zero over zero \<open>NaN\<close>. Every
  zero divisor in the source is a positive zero (a square, a square root, or a sum
  of a number and its negative), so a zero divisor never flips the sign.
\<close>

datatype npfloat = Fin real | PInf | NInf | NaN

fun fneg :: "npfloat \<Rightarrow> npfloat" where
  "fneg (Fin a) = Fin (- a)"
| "fneg PInf = NInf"
| "fneg NInf = PInf"
| "fneg NaN = NaN"

fun fadd :: "npfloat \<Rightarrow> npfloat \<Rightarrow> npfloat" where
  "fadd (Fin a) (Fin b) = Fin (a + b)"
| "fadd NaN y = NaN"
| "fadd x NaN = NaN"
| "fadd PInf NInf = NaN"
| "fadd NInf PInf = NaN"
| "fadd PInf y = PInf"
| "fadd x PInf = PInf"
| "fadd NInf y = NInf"
| "fadd x NInf = NInf"

definition fsub :: "npfloat \<Rightarrow> npfloat \<Rightarrow> npfloat" where
  "fsub x y = fadd x (fneg y)"

definition inf_times :: "npfloat \<Rightarrow> real \<Rightarrow> npfloat" where
  "inf_times i a = (if 0 < a then i else if a < 0 then fneg i else NaN)"

fun fmul :: "npfloat \<Rightarrow> npfloat \<Rightarrow> npfloat" where
  "fmul (Fin a) (Fin b) = Fin (a * b)"
| "fmul NaN y = NaN"
| "fmul x NaN = NaN"
| "fmul (Fin a) y = inf_times y a"
| "fmul x (Fin b) = inf_times x b"
| "fmul PInf y = y"
| "fmul NInf y = fneg y"

text \<open>Division of an array element by a scalar that is never a negative zero.\<close>

fun fdiv :: "npfloat \<Rightarrow> real \<Rightarrow> npfloat" where
  "fdiv (Fin a) d =
     (if d \<noteq> 0 then Fin (a / d) else if 0 < a then PInf else if a < 0 then NInf else NaN)"
| "fdiv NaN d = NaN"
| "fdiv PInf d = (if d < 0 then NInf else PInf)"
| "fdiv NInf d = (if d < 0 then PInf else NInf)"

fun fexp :: "npfloat \<Rightarrow> npfloat" where
  "fexp (Fin a) = Fin (exp a)"
| "fexp PInf = PInf"
| "fexp NInf = Fin 0"
| "fexp NaN = NaN"

text \<open>Comparisons: every comparison with \<open>NaN\<close> is false.\<close>

fun fle :: "npfloat \<Rightarrow> npfloat \<Rightarrow> bool" where
  "fle (Fin a) (Fin b) = (a \<le> b)"
| "fle NaN y = False"
| "fle x NaN = False"
| "fle NInf y = True"
| "fle x PInf = True"
| "fle PInf y = False"
| "fle x NInf = False"

definition fgt :: "npfloat \<Rightarrow> npfloat \<Rightarrow> bool" where
  "fgt x y = (fle y x \<and> \<not> fle x y)"

text \<open>
  \<open>scipy.special.erf\<close> is the error function of an external library; it is the
  function with the Maclaurin series below, extended to the infinities by its limits.
\<close>

definition erf :: "real \<Rightarrow> real" where
  "erf x = 2 / sqrt pi * (\<Sum>n. (- 1) ^ n * (x ^ (2 * n + 1) / (fact n * real (2 * n + 1))))"

fun ferf :: "npfloat \<Rightarrow> npfloat" where
  "ferf (Fin a) = Fin (erf a)"
| "ferf PInf = Fin 1"
| "ferf NInf = Fin (- 1)"
| "ferf NaN = NaN"

text \<open>
  What a call prints is part of its result: a line of text, or a line of text followed
  by the number that the \<open>print\<close> statement appends.
\<close>

datatype message = Text string | Text_num string int

datatype py_error = TypeError | IndexError | ZeroDivisionError

text \<open>A call yields the lines it printed and either the exception raised or the value returned.\<close>

type_synonym 'a outcome = "message list \<times> (py_error + 'a)"

text \<open>\<open>np.linspace(start, stop, num)\<close>: \<open>num\<close> evenly spaced samples including both ends.\<close>

definition linspace :: "real \<Rightarrow> real \<Rightarrow> nat \<Rightarrow> real list" where
  "linspace start stop num =
     (if num = 1 then [start]
      else map (\<lambda>i. start + real i * ((stop - start) / real (num - 1))) [0..<num])"

section \<open>Parameter sets\<close>

text \<open>
  An \<open>lmfit.Parameters\<close> object is an ordered dictionary from names to parameters;
  \<open>add name value vary min max expr\<close> stores the arguments it is given. The lists of
  three lengths, diffusivities and flags that the program documents are triples.
\<close>

datatype pvalue = Num real | Vec3 "real \<times> real \<times> real"

record parameter =
  p_value :: pvalue
  p_vary :: bool
  p_min :: "real option"
  p_max :: "real option"
  p_expr :: "string option"

type_synonym parameters = "(string \<times> parameter) list"

definition add ::
  "parameters \<Rightarrow> string \<Rightarrow> pvalue \<Rightarrow> bool \<Rightarrow> real option \<Rightarrow> real option \<Rightarrow> string option
     \<Rightarrow> parameters" where
  "add params name v vary mn mx ex =
     AList.update name \<lparr>p_value = v, p_vary = vary, p_min = mn, p_max = mx, p_expr = ex\<rparr> params"

fun params_setup3D ::
  "real \<times> real \<times> real \<Rightarrow> real \<times> real \<times> real \<Rightarrow> real \<Rightarrow> real \<Rightarrow> real \<Rightarrow> bool \<Rightarrow> bool
     \<Rightarrow> bool \<times> bool \<times> bool \<Rightarrow> bool \<Rightarrow> bool \<Rightarrow> parameters" where
  "params_setup3D microns3 (Dx, Dy, Dz) time_seconds initial final isotropic slowb
       (vDx, vDy, vDz) vinit vfin =
     (let params = [];
          params = add params ''microns3'' (Vec3 microns3) False None None None;
          params = add params ''log10Dx'' (Num Dx) vDx None None None;
          params = add params ''time_seconds'' (Num time_seconds) False None None None;
          params = add params ''initial_unit_value'' (Num initial) vinit None None None;
          params = add params ''final_unit_value'' (Num final) vfin None None None
      in if isotropic then
           (let params = add params ''log10Dy'' (Num Dy) vDy None None (Some ''log10Dx'')
            in add params ''log10Dz'' (Num Dz) vDz None None (Some ''log10Dx''))
         else if slowb then
           (let params = add params ''log10Dy'' (Num Dy) vDy None None (Some ''log10Dx - 1.'')
            in add params ''log10Dz'' (Num Dz) vDz None None (Some ''log10Dx''))
         else
           (let params = add params ''log10Dy'' (Num Dy) vDy None None None
            in add params ''log10Dz'' (Num Dz) vDz None None None))"

section \<open>The whole-block convenience wrapper\<close>

text \<open>
  What \<open>diffusion3Dwb\<close> can hand back according to its text: the parameter set, the
  positions and profiles, or those with the figure and axes of a new plot (the handles
  are not modelled). The function returns at its first \<open>return\<close> statement; the
  statements below it are never executed and have no counterpart here. The arguments
  \<open>raypaths\<close>, \<open>top\<close> (here \<open>top_y\<close>), \<open>points\<close>, \<open>show_plot\<close>, \<open>figax\<close> and \<open>isotropic\<close> are not
  used before that statement.
\<close>

datatype wrapper_return =
    Return_params parameters
  | Return_xy "real list \<times> real list \<times> real list" "npfloat list \<times> npfloat list \<times> npfloat list"
  | Return_fig_xy "real list \<times> real list \<times> real list" "npfloat list \<times> npfloat list \<times> npfloat list"

definition diffusion3Dwb ::
  "real \<times> real \<times> real \<Rightarrow> real \<times> real \<times> real \<Rightarrow> real \<Rightarrow> (string \<times> string \<times> string) option
     \<Rightarrow> real \<Rightarrow> real \<Rightarrow> real \<Rightarrow> real \<Rightarrow> bool \<Rightarrow> bool \<Rightarrow> bool \<Rightarrow> wrapper_return" where
  "diffusion3Dwb lengths_microns log10Ds_m2s time_seconds raypaths initial final top_y points
       show_plot figax_given isotropic =
     (let params = params_setup3D lengths_microns log10Ds_m2s time_seconds initial final
                     False False (True, True, True) False False
      in Return_params params)"

section \<open>Activation energy regression\<close>

text \<open>
  \<open>solve_Ea_D0\<close> stands twice in the repository, with the same statements, in
  \<open>diffusion.py\<close> and in \<open>diffusion/arrhenius.py\<close>. \<open>np.polyfit\<close> and the \<open>ufloat\<close>
  numbers with uncertainties are libraries outside the given sources: the fit is a
  parameter that yields the two coefficients and the two diagonal covariances or
  raises, and the \<open>ufloat\<close> operations are a record of functions.
\<close>

definition GAS_CONSTANT :: real where
  "GAS_CONSTANT = 0.00831"

definition float_epsilon :: real where
  "float_epsilon = 1 / 2 ^ 52"

record 'u ufloat_ops =
  ufloat :: "npfloat \<Rightarrow> npfloat \<Rightarrow> 'u"
  u_neg :: "'u \<Rightarrow> 'u"
  u_times :: "'u \<Rightarrow> real \<Rightarrow> 'u"
  ten_to_the :: "'u \<Rightarrow> 'u"

type_synonym polyfit =
  "npfloat list \<Rightarrow> npfloat list \<Rightarrow> real list
     \<Rightarrow> py_error + ((npfloat \<times> npfloat) \<times> (npfloat \<times> npfloat))"

definition solve_Ea_D0 ::
  "polyfit \<Rightarrow> 'u ufloat_ops \<Rightarrow> real list \<Rightarrow> real list \<Rightarrow> ('u option \<times> 'u option) outcome" where
  "solve_Ea_D0 np_polyfit U log10D_list celsius_list =
     (let T = map (\<lambda>c. c + 273.15) celsius_list;
          x = map (\<lambda>Tk. fdiv (Fin 10000) Tk) T;
          y = map Fin log10D_list
      in if length x < 2 \<or> length y < 2 then
           ([Text ''Warning: fitting to only one point''], Inr (None, None))
         else
           (let x_extra = x @ drop (length x - 1) x;
                y_extra = y @ drop (length y - 1) y;
                weights = replicate (length x) 1 @ [float_epsilon]
            in case np_polyfit x_extra y_extra weights of
                 Inl e \<Rightarrow> ([], Inl e)
               | Inr ((fit0, fit1), (cov00, cov11)) \<Rightarrow>
                   (let Ea_error = (if fgt cov00 (Fin 0) then cov00 else Fin 0);
                        D0_error = (if fgt cov11 (Fin 0) then cov11 else Fin 0);
                        Ea_extra = u_times U (u_times U (u_times U
                                     (u_neg U (ufloat U fit0 Ea_error)) 2.303) GAS_CONSTANT) 10000;
                        D0_extra = ten_to_the U (ufloat U fit1 D0_error)
                    in ([], Inr (Some Ea_extra, Some D0_extra)))))"

section \<open>One-dimensional diffusion\<close>

text \<open>
  The model functions read the dictionary of parameter values; its keys are the
  fields of the records below. The values are Python floats.
\<close>

record shared_values =
  time_seconds :: real
  initial_unit_value :: real
  final_unit_value :: real

record values1D = shared_values +
  microns :: real
  log10D_m2s :: real

record values3D = shared_values +
  microns3 :: "real \<times> real \<times> real"
  log10Dx :: real
  log10Dy :: real
  log10Dz :: real

subsection \<open>Thin slab\<close>

text \<open>
  The inner loop of \<open>diffusionThinSlab\<close> for one time in seconds: the sum over
  \<open>n\<close> in \<open>range(infinity)\<close>. The quotient is a numpy division, which does not raise.
\<close>

definition thin_slab_infsum :: "real \<Rightarrow> real \<Rightarrow> int \<Rightarrow> real \<Rightarrow> npfloat" where
  "thin_slab_infsum D_m2s L_meters infinity t =
     foldl (\<lambda>infsum n.
              let exponent_top = D_m2s * ((2 * real n + 1) ^ 2) * (pi ^ 2) * t;
                  exponent_bot = 4 * (L_meters ^ 2);
                  exponent = fexp (fdiv (Fin (- 1 * exponent_top)) exponent_bot);
                  addme = fmul (Fin (8 * (1 / (((2 * real n + 1) ^ 2) * (pi ^ 2))))) exponent
              in fadd infsum addme)
       (Fin 0) [0..<nat infinity]"

definition diffusionThinSlab ::
  "real \<Rightarrow> real \<Rightarrow> real \<Rightarrow> int \<Rightarrow> nat \<Rightarrow> real list \<times> npfloat list" where
  "diffusionThinSlab log10D thickness_microns max_time_hours infinity timesteps =
     (let t_hours = linspace 0 max_time_hours timesteps;
          t_seconds = map (\<lambda>t. t * 3600) t_hours;
          L_meters = thickness_microns / 2000000;
          D_m2s = 10 powr log10D;
          cc = map (thin_slab_infsum D_m2s L_meters infinity) t_seconds
      in (t_hours, cc))"

subsection \<open>Profiles\<close>

text \<open>
  The series branch of \<open>diffusion1D_params\<close>. Its time component is a quotient of
  Python floats, which raises when the divisor is zero.
\<close>

definition infsum_profile ::
  "real \<Rightarrow> real \<Rightarrow> real \<Rightarrow> int \<Rightarrow> real list \<Rightarrow> py_error + npfloat list" where
  "infsum_profile D t twoA infinity x =
     (if 0 < infinity \<and> twoA ^ 2 = 0 then Inl ZeroDivisionError
      else
        (let xsum = foldl (\<lambda>xsum n.
                       let xadd1 = ((- 1) ^ n) / (2 * real n + 1);
                           xadd2 = exp ((- D * ((2 * real n + 1) ^ 2) * (pi ^ 2) * t) / (twoA ^ 2));
                           xadd3 = map (\<lambda>xi. cos ((2 * real n + 1) * pi * xi / twoA)) x;
                           xadd = map (\<lambda>c. xadd1 * xadd2 * c) xadd3
                       in map2 (+) xsum xadd)
                     (map (\<lambda>xi. 0) x) [0..<nat infinity]
         in Inr (map (\<lambda>s. Fin (s * 4 / pi)) xsum)))"

text \<open>The error function branch: an array divided by the scalar \<open>2*sqrtDt\<close>.\<close>

definition erf_profile :: "real \<Rightarrow> real \<Rightarrow> real \<Rightarrow> real list \<Rightarrow> npfloat list" where
  "erf_profile D t a_meters x =
     (let sqrtDt = (D * t) powr 0.5
      in map (\<lambda>xi. fsub (fadd (ferf (fdiv (Fin (a_meters + xi)) (2 * sqrtDt)))
                               (ferf (fdiv (Fin (a_meters - xi)) (2 * sqrtDt))))
                         (Fin 1)) x)"

datatype d1_return =
    Ret_None
  | Ret_False
  | Ret_profile "real list" "npfloat list"
  | Ret_residual "npfloat list"

definition diffusion1D_params ::
  "values1D \<Rightarrow> real list option \<Rightarrow> real list option \<Rightarrow> string \<Rightarrow> bool \<Rightarrow> int \<Rightarrow> nat
     \<Rightarrow> d1_return outcome" where
  \<open>diffusion1D_params p data_x_microns data_y_unit_areas erf_or_sum need_to_center_x_data
       infinity points =
     (let L_meters = microns p / 1000000;
          t = time_seconds p;
          D = 10 powr log10D_m2s p;
          initial_value = initial_unit_value p;
          final_value = final_unit_value p;
          going_out = (initial_value > final_value);
          solubility = (if going_out then initial_value else final_value);
          minimum_value = (if going_out then final_value else initial_value);
          a_meters = L_meters / 2;
          twoA = L_meters
      in if t < 0 then ([Text ''no negative time''], Inr Ret_None)
         else
           (let (printed, fitting) =
                  (case (data_x_microns, data_y_unit_areas) of
                     (Some dx, Some dy) \<Rightarrow>
                       if length dx = length dy then ([], Some (dx, dy))
                       else ([Text ''x and y data must be the same length'',
                              Text_num ''x'' (int (length dx)),
                              Text_num ''y'' (int (length dy))], None)
                   | _ \<Rightarrow> ([], None));
                x = (case fitting of
                       Some (dx, dy) \<Rightarrow>
                         (let x = map (\<lambda>v. v / 1000000) dx
                          in if need_to_center_x_data then map (\<lambda>v. v - a_meters) x else x)
                     | None \<Rightarrow> linspace (- a_meters) a_meters points);
                finish = (\<lambda>model.
                   let model = (if \<not> going_out then map (\<lambda>m. fsub (Fin 1) m) model else model);
                       concentration_range = solubility - minimum_value;
                       model = map (\<lambda>m. fadd (fmul m (Fin concentration_range))
                                               (Fin minimum_value)) model;
                       x_microns = map (\<lambda>v. v * 1000000) x
                   in case fitting of
                        None \<Rightarrow> (printed, Inr (Ret_profile x_microns model))
                      | Some (dx, dy) \<Rightarrow>
                          (printed, Inr (Ret_residual (map2 fsub model (map Fin dy)))))
            in if erf_or_sum = ''infsum'' then
                 (case infsum_profile D t twoA infinity x of
                    Inl e \<Rightarrow> (printed, Inl e)
                  | Inr model \<Rightarrow> finish model)
               else if erf_or_sum = ''erf'' then finish (erf_profile D t a_meters x)
               else
                 (printed @
                  [Text_num (''erf_or_sum must be set to either "erf" for python built-in '' @
                             ''error function approximation (defaul) or "sum" for infinite '' @
                             ''sum approximation with infinity=whatever, defaulting to '')
                            infinity],
                  Inr Ret_False)))\<close>

section \<open>Three-dimensional diffusion\<close>

text \<open>
  Observed data for three profiles are three lists. \<open>np.array\<close> makes a matrix of
  them when they have one length and an array of three objects otherwise.
\<close>

type_synonym 'a three = "'a \<times> 'a \<times> 'a"

fun item :: "'a three \<Rightarrow> nat \<Rightarrow> 'a" where
  "item (a, b, c) k = (if k = 0 then a else if k = Suc 0 then b else c)"

fun np_shape :: "real list three \<Rightarrow> nat list" where
  "np_shape (a, b, c) =
     (if length a = length b \<and> length b = length c then [3, length a] else [3])"

datatype message3 = Line message | Line_shape string "nat list"

type_synonym 'a outcome3 = "message3 list \<times> (py_error + 'a)"

text \<open>The test of the data shapes that both three-dimensional functions start with.\<close>

definition fitting_check ::
  "real list three option \<Rightarrow> real list three option
     \<Rightarrow> message3 list \<times> (real list three \<times> real list three) option" where
  "fitting_check data_x_microns data_y_unit_areas =
     (case (data_x_microns, data_y_unit_areas) of
        (Some x_data, Some y_data) \<Rightarrow>
          if np_shape x_data = np_shape y_data
          then ([Line (Text ''fitting to data'')], Some (x_data, y_data))
          else ([Line (Text ''x and y data must be the same shape''),
                 Line_shape ''x'' (np_shape x_data),
                 Line_shape ''y'' (np_shape y_data)], None)
      | _ \<Rightarrow> ([], None))"

text \<open>
  The three one-dimensional profiles of \<open>diffusion3Dnpi_params\<close>: each call is made
  with the default method and without data, and its result is unpacked as a pair,
  which raises when the call returned \<open>None\<close>.
\<close>

fun profiles1D ::
  "values1D list \<Rightarrow> nat \<Rightarrow> (real list list \<times> npfloat list list) outcome3" where
  "profiles1D [] points = ([], Inr ([], []))"
| "profiles1D (p1D # rest) points =
     (case diffusion1D_params p1D None None ''erf'' True 100 points of
        (printed, Inl e) \<Rightarrow> (map Line printed, Inl e)
      | (printed, Inr (Ret_profile x y)) \<Rightarrow>
          (case profiles1D rest points of
             (printed', Inl e) \<Rightarrow> (map Line printed @ printed', Inl e)
           | (printed', Inr (xprofiles, yprofiles)) \<Rightarrow>
               (map Line printed @ printed', Inr (x # xprofiles, y # yprofiles)))
      | (printed, Inr _) \<Rightarrow> (map Line printed, Inl TypeError))"

datatype npi_return =
    Npi_fields "npfloat list list list" "npfloat list three" "real list three"
  | Npi_residuals "npfloat list list"

definition diffusion3Dnpi_params ::
  "values3D \<Rightarrow> real list three option \<Rightarrow> real list three option \<Rightarrow> string \<Rightarrow> bool \<Rightarrow> int
     \<Rightarrow> nat \<Rightarrow> npi_return outcome3" where
  "diffusion3Dnpi_params p data_x_microns data_y_unit_areas erf_or_sum centered infinity points =
     (let (printed, fitting) = fitting_check data_x_microns data_y_unit_areas;
          L3_microns = microns3 p;
          t = time_seconds p;
          init = initial_unit_value p;
          fin = final_unit_value p;
          log10D3 = (log10Dx p, log10Dy p, log10Dz p);
          scale = (if init > 1 then init else 1);
          init = (if init > 1 then 1 else init);
          going_out = (\<not> init < fin);
          minimum_value = (if init > fin then fin else init);
          (init, fin) = (if \<not> going_out then (fin, init) else (init, fin));
          p1Ds = map (\<lambda>k. \<lparr>time_seconds = t, initial_unit_value = init, final_unit_value = fin,
                             microns = item L3_microns k, log10D_m2s = item log10D3 k\<rparr>)
                   [0..<3]
      in case profiles1D p1Ds points of
           (printed1, Inl e) \<Rightarrow> (printed @ printed1, Inl e)
         | (printed1, Inr (xprofiles, yprofiles)) \<Rightarrow>
             (let v = map (\<lambda>d. map (\<lambda>e. map (\<lambda>f.
                            fmul (fmul ((yprofiles ! 0) ! d) ((yprofiles ! 1) ! e))
                                 ((yprofiles ! 2) ! f))
                          [0..<points]) [0..<points]) [0..<points];
                  v = map (map (map (\<lambda>c. fmul c (Fin scale)))) v;
                  v = (if \<not> going_out
                       then map (map (map (\<lambda>c. fadd (fsub (Fin 1) c) (Fin (1 * minimum_value))))) v
                       else v);
                  mid = points div 2
              in if points \<le> mid then (printed @ printed1, Inl IndexError)
                 else
                   (let aslice = map (\<lambda>plane. (plane ! mid) ! mid) v;
                        bslice = map (\<lambda>row. row ! mid) (v ! mid);
                        cslice = (v ! mid) ! mid;
                        sliceprofiles = (aslice, bslice, cslice);
                        slice_positions_microns =
                          (\<lambda>k. let a = item L3_microns k / 2
                                in if \<not> centered then linspace 0 (a * 2) points
                                   else linspace (- a) a points)
                    in case fitting of
                         None \<Rightarrow>
                           (printed @ printed1,
                            Inr (Npi_fields v sliceprofiles
                                   (slice_positions_microns 0, slice_positions_microns 1,
                                    slice_positions_microns 2)))
                       | Some data \<Rightarrow>
                           (printed @ printed1,
                            Inr (Npi_residuals (replicate 3 (replicate points (Fin 0))))))))"

subsection \<open>Whole block\<close>

text \<open>\<open>argmin\<close> of a numpy array: the first index of the least entry.\<close>

fun argmin :: "real list \<Rightarrow> nat" where
  "argmin [] = 0"
| "argmin [x] = 0"
| "argmin (x # y # ys) = (let i = argmin (y # ys) in if x \<le> (y # ys) ! i then 0 else Suc i)"

text \<open>The mean of a list of array entries, as \<open>mean\<close> takes it along one axis.\<close>

definition fmean :: "npfloat list \<Rightarrow> npfloat" where
  "fmean cs = fdiv (foldl fadd (Fin 0) cs) (real (length cs))"

text \<open>
  The residuals of one direction: for each observed position the entry of the model
  profile nearest to it, minus the observed value. Reading an observed value beyond
  the end of its list raises.
\<close>

definition residuals_of ::
  "real list \<Rightarrow> npfloat list \<Rightarrow> real list \<Rightarrow> real list \<Rightarrow> py_error + npfloat list" where
  "residuals_of wb_positions wb_profile x_data y_data =
     (if length y_data < length x_data then Inl IndexError
      else Inr (map (\<lambda>pos.
                  let microns = x_data ! pos;
                      idx = argmin (map (\<lambda>w. \<bar>w - microns\<bar>) wb_positions);
                      model = wb_profile ! idx;
                      data = y_data ! pos
                  in fsub model (Fin data))
                [0..<length x_data]))"

fun residual_loop ::
  "(real list \<times> npfloat list \<times> real list \<times> real list) list \<Rightarrow> py_error + npfloat list" where
  "residual_loop [] = Inr []"
| "residual_loop ((wb_positions, wb_profile, x_data, y_data) # rest) =
     (case residuals_of wb_positions wb_profile x_data y_data of
        Inl e \<Rightarrow> Inl e
      | Inr res \<Rightarrow> (case residual_loop rest of Inl e \<Rightarrow> Inl e | Inr later \<Rightarrow> Inr (res @ later)))"

datatype wb_return =
    Wb_None
  | Wb_profiles "real list three" "npfloat list three"
  | Wb_residuals "npfloat list"

text \<open>
  \<open>diffusion3Dwb_params\<close>. Drawing the three panels (\<open>show_plot\<close>, \<open>fig_ax\<close>, \<open>style\<close>)
  acts on a figure only and is left out; \<open>need_to_center_x_data\<close>, \<open>infinity\<close> and
  \<open>show_1Dplots\<close> are not used by the function.
\<close>

definition diffusion3Dwb_params ::
  "values3D \<Rightarrow> real list three option \<Rightarrow> real list three option \<Rightarrow> string three option
     \<Rightarrow> string \<Rightarrow> nat \<Rightarrow> wb_return outcome3" where
  \<open>diffusion3Dwb_params p data_x_microns data_y_unit_areas raypaths erf_or_sum points =
     (case raypaths of
        None \<Rightarrow>
          ([Line (Text ''raypaths must be in the form of a list of three abc directions'')],
           Inr Wb_None)
      | Some raypaths \<Rightarrow>
         (case diffusion3Dnpi_params p None None erf_or_sum True 100 points of
            (printed0, Inl e) \<Rightarrow> (printed0, Inl e)
          | (printed0, Inr (Npi_residuals r)) \<Rightarrow> (printed0, Inl TypeError)
          | (printed0, Inr (Npi_fields v sliceprofiles slicepositions)) \<Rightarrow>
             (let (printed1, fitting) = fitting_check data_x_microns data_y_unit_areas;
                  printed = printed0 @ printed1;
                  raypathA = map (\<lambda>e. map (\<lambda>f. fmean (map (\<lambda>d. ((v ! d) ! e) ! f) [0..<points]))
                                   [0..<points]) [0..<points];
                  raypathB = map (\<lambda>d. map (\<lambda>f. fmean (map (\<lambda>e. ((v ! d) ! e) ! f) [0..<points]))
                                   [0..<points]) [0..<points];
                  raypathC = map (\<lambda>d. map (\<lambda>e. fmean (map (\<lambda>f. ((v ! d) ! e) ! f) [0..<points]))
                                   [0..<points]) [0..<points];
                  mid = points div 2
              in if item raypaths 0 \<noteq> ''b'' \<and> item raypaths 0 \<noteq> ''c'' then
                   (printed @ [Line (Text ''raypaths[0] for profile || a must be "b" or "c"'')],
                    Inr Wb_None)
                 else if item raypaths 1 \<noteq> ''a'' \<and> item raypaths 1 \<noteq> ''c'' then
                   (printed @ [Line (Text ''raypaths[1] for profile || b must be "a" or "c"'')],
                    Inr Wb_None)
                 else if item raypaths 2 \<noteq> ''a'' \<and> item raypaths 2 \<noteq> ''b'' then
                   (printed @ [Line (Text ''raypaths[2] for profile || c must be "a" or "b"'')],
                    Inr Wb_None)
                 else
                   (let wbA = (if item raypaths 0 = ''b'' then map (\<lambda>row. row ! mid) raypathB
                               else map (\<lambda>row. row ! mid) raypathC);
                        wbB = (if item raypaths 1 = ''a'' then map (\<lambda>row. row ! mid) raypathA
                               else raypathC ! mid);
                        wbC = (if item raypaths 2 = ''a'' then raypathA ! mid
                               else raypathB ! mid);
                        L3 = microns3 p;
                        wb_profiles = (wbA, wbB, wbC);
                        wb_positions = (\<lambda>k. let a = item L3 k / 2 in linspace 0 (2 * a) points)
                    in case fitting of
                         None \<Rightarrow>
                           (printed,
                            Inr (Wb_profiles (wb_positions 0, wb_positions 1, wb_positions 2)
                                   wb_profiles))
                       | Some (x_array, y_array) \<Rightarrow>
                           (case residual_loop
                                   (map (\<lambda>k. (wb_positions k, item wb_profiles k,
                                                item x_array k, item y_array k)) [0..<3]) of
                              Inl e \<Rightarrow> (printed, Inl e)
                            | Inr residuals \<Rightarrow> (printed, Inr (Wb_residuals residuals)))))))\<close>

section \<open>The stated solutions\<close>

text \<open>
  The profile formulas as the specification words them, for comparison with the code:
  the error function solution (evaluated with the division of the program, so that it
  has a value at time zero as well), the truncated cosine series, and the model in
  physical units at a position \<open>x\<close> in meters: the profile, inverted when the
  concentration goes in, times the range from floor to solubility, plus the floor.
\<close>

definition erf_solution :: "real \<Rightarrow> real \<Rightarrow> real \<Rightarrow> real \<Rightarrow> npfloat" where
  "erf_solution a D t x =
     fsub (fadd (ferf (fdiv (Fin (a + x)) (2 * sqrt (D * t))))
                (ferf (fdiv (Fin (a - x)) (2 * sqrt (D * t))))) (Fin 1)"

definition series_solution :: "real \<Rightarrow> real \<Rightarrow> real \<Rightarrow> nat \<Rightarrow> real \<Rightarrow> real" where
  "series_solution a D t N x =
     4 / pi * (\<Sum>n<N. ((- 1) ^ n / (2 * real n + 1))
                      * exp (- D * (2 * real n + 1) ^ 2 * pi ^ 2 * t / (2 * a) ^ 2)
                      * cos ((2 * real n + 1) * pi * x / (2 * a)))"

definition model1D :: "values1D \<Rightarrow> string \<Rightarrow> int \<Rightarrow> real \<Rightarrow> npfloat" where
  "model1D p erf_or_sum N x =
     (let a = microns p / 1000000 / 2;
          D = 10 powr log10D_m2s p;
          t = time_seconds p;
          profile = (if erf_or_sum = ''erf'' then erf_solution a D t x
                     else Fin (series_solution a D t (nat N) x));
          going_out = (final_unit_value p < initial_unit_value p);
          solubility = (if going_out then initial_unit_value p else final_unit_value p);
          floor_value = (if going_out then final_unit_value p else initial_unit_value p);
          profile = (if going_out then profile else fsub (Fin 1) profile)
      in fadd (fmul profile (Fin (solubility - floor_value))) (Fin floor_value))"

text \<open>The positions and values of a call that returned a profile.\<close>

fun returned_profile :: "d1_return outcome \<Rightarrow> (real list \<times> npfloat list) option" where
  "returned_profile (printed, Inr (Ret_profile x y)) = Some (x, y)"
| "returned_profile other = None"

text \<open>The one-dimensional model on the positions that a call without data generates.\<close>

definition model_profile :: "values1D \<Rightarrow> string \<Rightarrow> int \<Rightarrow> nat \<Rightarrow> npfloat list" where
  "model_profile q erf_or_sum N points =
     map (model1D q erf_or_sum N)
       (linspace (- (microns q / 1000000 / 2)) (microns q / 1000000 / 2) points)"

text \<open>The three centerline slices of a call that returned the field.\<close>

fun returned_slices :: "npi_return outcome3 \<Rightarrow> npfloat list three option" where
  "returned_slices (printed, Inr (Npi_fields v sliceprofiles positions)) = Some sliceprofiles"
| "returned_slices other = None"

text \<open>
  The residuals of one profile direction as the specification words them: for each
  observed point, the model value at the nearest grid index (the first one, where several
  grid positions are equally near), minus the observed value.
\<close>

definition nearest_index :: "real list \<Rightarrow> real \<Rightarrow> nat" where
  "nearest_index grid x =
     (LEAST i. i < length grid \<and> (\<forall>j<length grid. \<bar>grid ! i - x\<bar> \<le> \<bar>grid ! j - x\<bar>))"

definition nearest_residuals ::
  "real list \<Rightarrow> npfloat list \<Rightarrow> real list \<Rightarrow> real list \<Rightarrow> npfloat list" where
  "nearest_residuals grid profile xs ys =
     map2 (\<lambda>x y. fsub (profile ! nearest_index grid x) (Fin y)) xs ys"

text \<open>
  The whole-block profiles as the specification words them. The field at the grid indices
  \<open>i\<close>, \<open>j\<close>, \<open>k\<close> is the product of the three one-dimensional profiles (built for
  diffusion out, with the initial value scaled down to 1), times the scale; for diffusion
  in it is one minus that product plus the floor. The average along a ray path is the sum
  of the \<open>points\<close> field values on the path over their number. The profile along a
  direction is that average, for each index of the direction, with the remaining index at
  the middle \<open>points div 2\<close>.
\<close>

definition path_mean :: "nat \<Rightarrow> (nat \<Rightarrow> npfloat) \<Rightarrow> npfloat" where
  "path_mean n g = fdiv (foldl fadd (Fin 0) (map g [0..<n])) (real n)"

definition field_value :: "values3D \<Rightarrow> nat \<Rightarrow> nat \<Rightarrow> nat \<Rightarrow> nat \<Rightarrow> npfloat" where
  "field_value p points i j k =
     (let scale = (if 1 < initial_unit_value p then initial_unit_value p else 1);
          init = (if 1 < initial_unit_value p then 1 else initial_unit_value p);
          fin = final_unit_value p;
          going_in = (init < fin);
          floor_value = (if fin < init then fin else init);
          axis = (\<lambda>a D. model_profile
                     \<lparr>time_seconds = time_seconds p,
                        initial_unit_value = (if going_in then fin else init),
                        final_unit_value = (if going_in then init else fin),
                        microns = a, log10D_m2s = D\<rparr> ''erf'' 100 points);
          product = fmul (fmul (fmul (axis (item (microns3 p) 0) (log10Dx p) ! i)
                                     (axis (item (microns3 p) 1) (log10Dy p) ! j))
                               (axis (item (microns3 p) 2) (log10Dz p) ! k))
                         (Fin scale)
      in if going_in then fadd (fsub (Fin 1) product) (Fin floor_value) else product)"

definition whole_block :: "values3D \<Rightarrow> nat \<Rightarrow> string three \<Rightarrow> npfloat list three" where
  "whole_block p points raypaths =
     (let mid = points div 2;
          F = field_value p points
      in (map (\<lambda>i. if item raypaths 0 = ''b'' then path_mean points (\<lambda>j. F i j mid)
                     else path_mean points (\<lambda>k. F i mid k)) [0..<points],
          map (\<lambda>j. if item raypaths 1 = ''a'' then path_mean points (\<lambda>i. F i j mid)
                     else path_mean points (\<lambda>k. F mid j k)) [0..<points],
          map (\<lambda>k. if item raypaths 2 = ''a'' then path_mean points (\<lambda>i. F i mid k)
                     else path_mean points (\<lambda>j. F mid j k)) [0..<points]))"

text \<open>
  The thin-slab sum as the specification words it, over the reals: \<open>N\<close> terms at the
  time \<open>t\<close> in seconds for half-thickness \<open>a\<close> in meters.
\<close>

definition thin_slab_series :: "real \<Rightarrow> real \<Rightarrow> nat \<Rightarrow> real \<Rightarrow> real" where
  "thin_slab_series D a N t =
     (\<Sum>n<N. 8 / ((2 * real n + 1)\<^sup>2 * pi\<^sup>2)
             * exp (- D * (2 * real n + 1)\<^sup>2 * pi\<^sup>2 * t / (4 * a\<^sup>2)))"

section \<open>Properties of the parameter setup\<close>

text \<open>
  C7 (as stated) fails where both flags are set: the isotropic branch is tested first,
  so with \<open>isotropic\<close> and \<open>slowb\<close> both true \<open>log10Dy\<close> is linked to \<open>log10Dx\<close> and not
  to \<open>log10Dx - 1.\<close>.
\<close>

theorem params_setup3D_both_flags_counterexample:
  "map_option p_expr
     (map_of (params_setup3D (2000, 2000, 2000) (- 13, - 13, - 13) 3600 1 0 True True
                (True, True, True) False False) ''log10Dy'') = Some (Some ''log10Dx'')
   \<and> map_option p_expr
     (map_of (params_setup3D (2000, 2000, 2000) (- 13, - 13, - 13) 3600 1 0 True True
                (True, True, True) False False) ''log10Dy'') \<noteq> Some (Some ''log10Dx - 1.'')"
  by (simp add: add_def)

text \<open>
  C7 (amended): \<open>params_setup3D\<close> returns a parameter set in which, when \<open>isotropic\<close> is
  true, \<open>log10Dy\<close> and \<open>log10Dz\<close> carry the expression \<open>log10Dx\<close>; when \<open>slowb\<close> is true
  and \<open>isotropic\<close> is not, \<open>log10Dy\<close> carries \<open>log10Dx - 1.\<close> and \<open>log10Dz\<close> carries
  \<open>log10Dx\<close>; and when neither flag is set, the three diffusivities carry their own vary
  flags and no expression. In every case \<open>log10Dx\<close> carries its own flag and no expression.
\<close>

theorem params_setup3D_linkage:
  "map_of (params_setup3D m (Dx, Dy, Dz) t i f isotropic slowb (vx, vy, vz) vi vf) ''log10Dx''
     = Some \<lparr>p_value = Num Dx, p_vary = vx, p_min = None, p_max = None, p_expr = None\<rparr>
   \<and> (isotropic \<longrightarrow>
        map_of (params_setup3D m (Dx, Dy, Dz) t i f isotropic slowb (vx, vy, vz) vi vf) ''log10Dy''
          = Some \<lparr>p_value = Num Dy, p_vary = vy, p_min = None, p_max = None,
                  p_expr = Some ''log10Dx''\<rparr>
        \<and> map_of (params_setup3D m (Dx, Dy, Dz) t i f isotropic slowb (vx, vy, vz) vi vf) ''log10Dz''
          = Some \<lparr>p_value = Num Dz, p_vary = vz, p_min = None, p_max = None,
                  p_expr = Some ''log10Dx''\<rparr>)
   \<and> (\<not> isotropic \<and> slowb \<longrightarrow>
        map_of (params_setup3D m (Dx, Dy, Dz) t i f isotropic slowb (vx, vy, vz) vi vf) ''log10Dy''
          = Some \<lparr>p_value = Num Dy, p_vary = vy, p_min = None, p_max = None,
                  p_expr = Some ''log10Dx - 1.''\<rparr>
        \<and> map_of (params_setup3D m (Dx, Dy, Dz) t i f isotropic slowb (vx, vy, vz) vi vf) ''log10Dz''
          = Some \<lparr>p_value = Num Dz, p_vary = vz, p_min = None, p_max = None,
                  p_expr = Some ''log10Dx''\<rparr>)
   \<and> (\<not> isotropic \<and> \<not> slowb \<longrightarrow>
        map_of (params_setup3D m (Dx, Dy, Dz) t i f isotropic slowb (vx, vy, vz) vi vf) ''log10Dy''
          = Some \<lparr>p_value = Num Dy, p_vary = vy, p_min = None, p_max = None, p_expr = None\<rparr>
        \<and> map_of (params_setup3D m (Dx, Dy, Dz) t i f isotropic slowb (vx, vy, vz) vi vf) ''log10Dz''
          = Some \<lparr>p_value = Num Dz, p_vary = vz, p_min = None, p_max = None, p_expr = None\<rparr>)"
  by (simp add: add_def Let_def)

theorem params_setup3D_linkage_witness:
  "map_option p_expr
     (map_of (params_setup3D (2000, 2000, 2000) (- 13, - 12, - 11) 3600 1 0 True False
                (True, False, True) False False) ''log10Dz'') = Some (Some ''log10Dx'')
   \<and> map_option p_expr
     (map_of (params_setup3D (2000, 2000, 2000) (- 13, - 12, - 11) 3600 1 0 False True
                (True, False, True) False False) ''log10Dy'') = Some (Some ''log10Dx - 1.'')
   \<and> map_option p_vary
     (map_of (params_setup3D (2000, 2000, 2000) (- 13, - 12, - 11) 3600 1 0 False False
                (True, False, True) False False) ''log10Dy'') = Some False
   \<and> map_option p_expr
     (map_of (params_setup3D (2000, 2000, 2000) (- 13, - 12, - 11) 3600 1 0 False False
                (True, False, True) False False) ''log10Dy'') = Some None"
  using
    params_setup3D_linkage [of "(2000, 2000, 2000)" "- 13" "- 12" "- 11" 3600 1 0 True False
      True False True False False]
    params_setup3D_linkage [of "(2000, 2000, 2000)" "- 13" "- 12" "- 11" 3600 1 0 False True
      True False True False False]
    params_setup3D_linkage [of "(2000, 2000, 2000)" "- 13" "- 12" "- 11" 3600 1 0 False False
      True False True False False]
  by simp

section \<open>Properties of the whole-block wrapper\<close>

text \<open>
  C10: for every input the wrapper \<open>diffusion3Dwb\<close> returns the parameter set built by
  \<open>params_setup3D\<close> from the lengths, diffusivities, time and initial and final values,
  with every other argument of the setup at its default; it never returns whole-block
  positions or profiles, with or without a figure.
\<close>

theorem diffusion3Dwb_returns_params:
  "diffusion3Dwb lengths_microns log10Ds_m2s time_s raypaths initial final top_y points
       show_plot figax_given isotropic
     = Return_params (params_setup3D lengths_microns log10Ds_m2s time_s initial final
                        False False (True, True, True) False False)
   \<and> diffusion3Dwb lengths_microns log10Ds_m2s time_s raypaths initial final top_y points
       show_plot figax_given isotropic \<noteq> Return_xy x y
   \<and> diffusion3Dwb lengths_microns log10Ds_m2s time_s raypaths initial final top_y points
       show_plot figax_given isotropic \<noteq> Return_fig_xy x y"
  by (simp add: diffusion3Dwb_def)

section \<open>Properties of the activation energy regression\<close>

text \<open>
  C9: for every input with fewer than two temperatures or fewer than two diffusivities,
  \<open>solve_Ea_D0\<close> prints the warning and returns the pair \<open>(None, None)\<close>: no exception is
  raised, the fit is not called and no activation energy or pre-exponential factor is made.
\<close>

theorem solve_Ea_D0_too_few_points:
  assumes "length celsius_list < 2 \<or> length log10D_list < 2"
  shows "solve_Ea_D0 np_polyfit U log10D_list celsius_list
           = ([Text ''Warning: fitting to only one point''], Inr (None, None))"
  using assms by (simp add: solve_Ea_D0_def Let_def)

theorem solve_Ea_D0_too_few_points_witness:
  "solve_Ea_D0 (\<lambda>x y w. Inr ((Fin 1, Fin 2), (Fin 3, Fin 4)))
       \<lparr>ufloat = \<lambda>a b. (a, b), u_neg = \<lambda>u. u, u_times = \<lambda>u k. u, ten_to_the = \<lambda>u. u\<rparr>
       [- 13] [1000]
     = ([Text ''Warning: fitting to only one point''], Inr (None, None))"
  using solve_Ea_D0_too_few_points
    [of "[1000]" "[- 13]" "\<lambda>x y w. Inr ((Fin 1, Fin 2), (Fin 3, Fin 4))"
        "\<lparr>ufloat = \<lambda>a b. (a, b), u_neg = \<lambda>u. u, u_times = \<lambda>u k. u, ten_to_the = \<lambda>u. u\<rparr>"]
  by simp

section \<open>Properties of the one-dimensional model\<close>

lemma length_linspace [simp]: "length (linspace a b n) = n"
  by (simp add: linspace_def)

lemma erf_profile_eq:
  assumes "0 \<le> D * t"
  shows "erf_profile D t a x = map (erf_solution a D t) x"
proof -
  have "(D * t) powr 0.5 = sqrt (D * t)"
    using assms powr_half_sqrt [of "D * t"] by simp
  then show ?thesis
    by (simp add: erf_profile_def erf_solution_def Let_def)
qed

lemma erf_solution_finite:
  assumes "0 < D" "0 < t"
  shows "erf_solution a D t x =
           Fin (erf ((a + x) / (2 * sqrt (D * t))) + erf ((a - x) / (2 * sqrt (D * t))) - 1)"
  using assms by (simp add: erf_solution_def fsub_def)

lemma foldl_map2_add:
  fixes g :: "nat \<Rightarrow> real \<Rightarrow> real"
  shows "foldl (\<lambda>xsum n. map2 (+) xsum (map (g n) x)) (map h x) ns
           = map (\<lambda>xi. h xi + (\<Sum>n\<leftarrow>ns. g n xi)) x"
proof (induction ns arbitrary: h)
  case Nil
  then show ?case by simp
next
  case (Cons n ns)
  have "map2 (+) (map h x) (map (g n) x) = map (\<lambda>xi. h xi + g n xi) x"
    by (induction x) simp_all
  then show ?case
    using Cons.IH [of "\<lambda>xi. h xi + g n xi"] by (simp add: add.assoc)
qed

lemma infsum_profile_eq:
  assumes "\<not> (0 < N \<and> L = 0)"
  shows "infsum_profile D t L N x = Inr (map (\<lambda>xi. Fin (series_solution (L / 2) D t (nat N) xi)) x)"
proof -
  have "foldl (\<lambda>xsum n. map2 (+) xsum
                 (map (\<lambda>xi. (- 1) ^ n / (2 * real n + 1)
                              * exp (- D * (2 * real n + 1) ^ 2 * pi ^ 2 * t / L ^ 2)
                              * cos ((2 * real n + 1) * pi * xi / L)) x))
          (map (\<lambda>xi. 0) x) [0..<nat N]
        = map (\<lambda>xi. 0 + (\<Sum>n\<leftarrow>[0..<nat N]. (- 1) ^ n / (2 * real n + 1)
                              * exp (- D * (2 * real n + 1) ^ 2 * pi ^ 2 * t / L ^ 2)
                              * cos ((2 * real n + 1) * pi * xi / L))) x"
    by (rule foldl_map2_add)
  moreover have "(\<Sum>n\<leftarrow>[0..<nat N]. f n) = (\<Sum>n<nat N. f n)" for f :: "nat \<Rightarrow> real"
    by (simp add: interv_sum_list_conv_sum_set_nat atLeast0LessThan)
  ultimately show ?thesis
    using assms by (simp add: infsum_profile_def Let_def series_solution_def o_def)
qed


lemma base_profile:
  assumes "0 \<le> t"
  shows "erf_profile (10 powr l) t a x = map (erf_solution a (10 powr l) t) x"
  using assms by (intro erf_profile_eq) simp

lemma d1_no_data:
  assumes "0 \<le> time_seconds p"
    and "erf_or_sum = ''erf'' \<or> (erf_or_sum = ''infsum'' \<and> \<not> (0 < N \<and> microns p = 0))"
  shows "diffusion1D_params p None None erf_or_sum center N points =
           ([], Inr (Ret_profile
              (map (\<lambda>x. x * 1000000)
                 (linspace (- (microns p / 1000000 / 2)) (microns p / 1000000 / 2) points))
              (map (model1D p erf_or_sum N)
                 (linspace (- (microns p / 1000000 / 2)) (microns p / 1000000 / 2) points))))"
proof (cases "erf_or_sum = ''erf''")
  case True
  then show ?thesis
    using assms(1) by (simp add: diffusion1D_params_def Let_def base_profile model1D_def o_def)
next
  case False
  then have m: "erf_or_sum = ''infsum''" and nz: "\<not> (0 < N \<and> microns p / 1000000 = 0)"
    using assms(2) by auto
  have "microns p / 1000000 / 2 = microns p / 2000000" by simp
  then show ?thesis
    using assms(1) m infsum_profile_eq [OF nz]
    by (simp add: diffusion1D_params_def Let_def model1D_def o_def)
qed

lemma d1_with_data:
  assumes "0 \<le> time_seconds p"
    and "erf_or_sum = ''erf'' \<or> (erf_or_sum = ''infsum'' \<and> \<not> (0 < N \<and> microns p = 0))"
    and "length dx = length dy"
  shows "diffusion1D_params p (Some dx) (Some dy) erf_or_sum center N points =
           ([], Inr (Ret_residual
              (map2 (\<lambda>x y. fsub (model1D p erf_or_sum N
                                  (if center then x / 1000000 - microns p / 1000000 / 2
                                   else x / 1000000)) (Fin y)) dx dy)))"
proof -
  have z: "map2 fsub (map f xs) (map Fin dy) = map2 (\<lambda>x y. fsub (f x) (Fin y)) xs dy"
    for f :: "real \<Rightarrow> npfloat" and xs :: "real list"
    by (simp add: zip_map_map zip_map1 zip_map2 split_def)
  show ?thesis
  proof (cases "erf_or_sum = ''erf''")
    case True
    then show ?thesis
      using assms(1,3)
      by (simp add: diffusion1D_params_def Let_def base_profile model1D_def o_def zip_map_map
          zip_map1 zip_map2 split_def)
  next
    case False
    then have m: "erf_or_sum = ''infsum''" and nz: "\<not> (0 < N \<and> microns p / 1000000 = 0)"
      using assms(2) by auto
    show ?thesis
      using assms(1,3) m infsum_profile_eq [OF nz]
      by (simp add: diffusion1D_params_def Let_def model1D_def o_def zip_map_map
          zip_map1 zip_map2 split_def)
  qed
qed


text \<open>
  C1: for every parameter set with \<open>initial_unit_value > final_unit_value\<close> and
  non-negative time, \<open>diffusion1D_params\<close> with method \<open>erf\<close> and no observed data
  prints nothing and returns the \<open>points\<close> positions of \<open>linspace (-a) a\<close> (in microns)
  with, at each position \<open>x\<close>, the value of
  \<open>[erf((a+x)/(2\<surd>(Dt))) + erf((a-x)/(2\<surd>(Dt))) - 1] \<cdot> (initial - final) + final\<close>, where
  \<open>a\<close> is half the length in meters and \<open>D = 10^log10D\<close>. For positive time this is the
  real number the formula denotes; at time zero the quotients have a zero divisor and the
  formula takes the value that the division of the program gives it.
\<close>

theorem diffusion1D_params_erf_profile:
  assumes "final_unit_value p < initial_unit_value p" and "0 \<le> time_seconds p"
  shows "diffusion1D_params p None None ''erf'' center N points =
           ([], Inr (Ret_profile
              (map (\<lambda>x. x * 1000000)
                 (linspace (- (microns p / 1000000 / 2)) (microns p / 1000000 / 2) points))
              (map (\<lambda>x. fadd (fmul (erf_solution (microns p / 1000000 / 2)
                                        (10 powr log10D_m2s p) (time_seconds p) x)
                                     (Fin (initial_unit_value p - final_unit_value p)))
                               (Fin (final_unit_value p)))
                 (linspace (- (microns p / 1000000 / 2)) (microns p / 1000000 / 2) points))))
         \<and> (0 < time_seconds p \<longrightarrow>
              fadd (fmul (erf_solution (microns p / 1000000 / 2)
                            (10 powr log10D_m2s p) (time_seconds p) x)
                         (Fin (initial_unit_value p - final_unit_value p)))
                   (Fin (final_unit_value p))
              = Fin ((erf ((microns p / 1000000 / 2 + x)
                             / (2 * sqrt (10 powr log10D_m2s p * time_seconds p)))
                      + erf ((microns p / 1000000 / 2 - x)
                             / (2 * sqrt (10 powr log10D_m2s p * time_seconds p))) - 1)
                     * (initial_unit_value p - final_unit_value p) + final_unit_value p))"
proof -
  have "model1D p ''erf'' N =
          (\<lambda>x. fadd (fmul (erf_solution (microns p / 1000000 / 2)
                              (10 powr log10D_m2s p) (time_seconds p) x)
                           (Fin (initial_unit_value p - final_unit_value p)))
                     (Fin (final_unit_value p)))"
    using assms(1) by (simp add: model1D_def Let_def fun_eq_iff)
  then have first: "diffusion1D_params p None None ''erf'' center N points =
           ([], Inr (Ret_profile
              (map (\<lambda>x. x * 1000000)
                 (linspace (- (microns p / 1000000 / 2)) (microns p / 1000000 / 2) points))
              (map (\<lambda>x. fadd (fmul (erf_solution (microns p / 1000000 / 2)
                                        (10 powr log10D_m2s p) (time_seconds p) x)
                                     (Fin (initial_unit_value p - final_unit_value p)))
                               (Fin (final_unit_value p)))
                 (linspace (- (microns p / 1000000 / 2)) (microns p / 1000000 / 2) points))))"
    using d1_no_data [of p "''erf''" N center points] assms(2) by simp
  have second: "fadd (fmul (erf_solution a (10 powr l) t x) (Fin r)) (Fin f)
          = Fin ((erf ((a + x) / (2 * sqrt (10 powr l * t)))
                  + erf ((a - x) / (2 * sqrt (10 powr l * t))) - 1) * r + f)"
    if "0 < t" for a l t r f
    using that by (simp add: erf_solution_finite)
  show ?thesis
    using first second by blast
qed

lemma linspace_3: "linspace a b 3 = [a, a + (b - a) / 2, a + 2 * ((b - a) / 2)]"
  by (simp add: linspace_def upt_rec numeral_3_eq_3)

theorem diffusion1D_params_erf_profile_witness:
  "diffusion1D_params
       \<lparr>time_seconds = 3600, initial_unit_value = 1, final_unit_value = 0,
          microns = 200, log10D_m2s = - 13\<rparr> None None ''erf'' True 100 3
     = ([], Inr (Ret_profile [- 100, 0, 100]
          (map (\<lambda>x. Fin (erf ((1 / 10000 + x) / (2 * sqrt (10 powr (- 13) * 3600)))
                          + erf ((1 / 10000 - x) / (2 * sqrt (10 powr (- 13) * 3600))) - 1))
             [- (1 / 10000), 0, 1 / 10000])))"
  using diffusion1D_params_erf_profile
    [of "\<lparr>time_seconds = 3600, initial_unit_value = 1, final_unit_value = 0,
           microns = 200, log10D_m2s = - 13\<rparr>" True 100 3]
  by (simp add: linspace_3 erf_solution_finite)


lemma linspace_2: "linspace a b 2 = [a, a + (b - a)]"
  by (simp add: linspace_def upt_rec numeral_2_eq_2)

text \<open>
  C4: with observed positions and values of different lengths the call should fail and
  return nothing. The code prints the message and the two lengths, but the branch has no
  \<open>return\<close>: the call goes on without the data and returns the positions it generates
  and the model on them, as a call without data does. (With equal lengths the residual
  vector is returned, as the lemma above states.)
\<close>

theorem diffusion1D_params_mismatch_returns_profile:
  "diffusion1D_params
       \<lparr>time_seconds = 3600, initial_unit_value = 1, final_unit_value = 0,
          microns = 200, log10D_m2s = - 13\<rparr> (Some [0, 100, 200]) (Some [1, 1]) ''erf'' True 100 2
     = ([Text ''x and y data must be the same length'', Text_num ''x'' 3, Text_num ''y'' 2],
        Inr (Ret_profile [- 100, 100]
               (map (model1D \<lparr>time_seconds = 3600, initial_unit_value = 1, final_unit_value = 0,
                                microns = 200, log10D_m2s = - 13\<rparr> ''erf'' 100)
                  [- (1 / 10000), 1 / 10000])))"
  by (simp add: diffusion1D_params_def Let_def linspace_2 base_profile model1D_def)

text \<open>
  C6 (as stated) fails at time zero: the two outermost positions are zero over zero in
  both directions, so both profiles hold \<open>NaN\<close> there and the sum is not 1.
\<close>

theorem diffusion1D_params_time_zero_counterexample:
  "returned_profile (diffusion1D_params
       \<lparr>time_seconds = 0, initial_unit_value = 1, final_unit_value = 0,
          microns = 200, log10D_m2s = - 13\<rparr> None None ''erf'' True 100 3)
     = Some ([- 100, 0, 100], [NaN, Fin 1, NaN])
   \<and> returned_profile (diffusion1D_params
       \<lparr>time_seconds = 0, initial_unit_value = 0, final_unit_value = 1,
          microns = 200, log10D_m2s = - 13\<rparr> None None ''erf'' True 100 3)
     = Some ([- 100, 0, 100], [NaN, Fin 0, NaN])
   \<and> fadd NaN NaN \<noteq> Fin 1"
  by (simp add: diffusion1D_params_def Let_def linspace_3 erf_profile_def fsub_def)

lemma model1D_sum_one:
  assumes "(erf_or_sum = ''erf'' \<and> 0 < time_seconds p) \<or> erf_or_sum \<noteq> ''erf''"
  shows "fadd (model1D (p\<lparr>initial_unit_value := 1, final_unit_value := 0\<rparr>) erf_or_sum N x)
              (model1D (p\<lparr>initial_unit_value := 0, final_unit_value := 1\<rparr>) erf_or_sum N x) = Fin 1"
  using assms by (auto simp add: model1D_def Let_def erf_solution_finite fsub_def)

text \<open>
  C6 (amended): for identical length, diffusivity and time, with positive time for method
  \<open>erf\<close> (and non-negative time, with a length other than zero or no series terms, for
  \<open>infsum\<close>), the call with \<open>(initial = 1, final = 0)\<close> and the call with
  \<open>(initial = 0, final = 1)\<close> return profiles on the same positions, and the two models sum
  to 1 at every position.
\<close>

theorem diffusion1D_params_direction_symmetry:
  assumes "(erf_or_sum = ''erf'' \<and> 0 < time_seconds p)
           \<or> (erf_or_sum = ''infsum'' \<and> 0 \<le> time_seconds p \<and> \<not> (0 < N \<and> microns p = 0))"
  shows "returned_profile (diffusion1D_params (p\<lparr>initial_unit_value := 1, final_unit_value := 0\<rparr>)
                             None None erf_or_sum center N points)
           = Some (map (\<lambda>x. x * 1000000)
                     (linspace (- (microns p / 1000000 / 2)) (microns p / 1000000 / 2) points),
                   map (model1D (p\<lparr>initial_unit_value := 1, final_unit_value := 0\<rparr>) erf_or_sum N)
                     (linspace (- (microns p / 1000000 / 2)) (microns p / 1000000 / 2) points))
       \<and> returned_profile (diffusion1D_params (p\<lparr>initial_unit_value := 0, final_unit_value := 1\<rparr>)
                             None None erf_or_sum center N points)
           = Some (map (\<lambda>x. x * 1000000)
                     (linspace (- (microns p / 1000000 / 2)) (microns p / 1000000 / 2) points),
                   map (model1D (p\<lparr>initial_unit_value := 0, final_unit_value := 1\<rparr>) erf_or_sum N)
                     (linspace (- (microns p / 1000000 / 2)) (microns p / 1000000 / 2) points))
       \<and> fadd (model1D (p\<lparr>initial_unit_value := 1, final_unit_value := 0\<rparr>) erf_or_sum N x)
              (model1D (p\<lparr>initial_unit_value := 0, final_unit_value := 1\<rparr>) erf_or_sum N x) = Fin 1"
proof -
  have t: "0 \<le> time_seconds p"
    and m: "erf_or_sum = ''erf'' \<or> (erf_or_sum = ''infsum'' \<and> \<not> (0 < N \<and> microns p = 0))"
    using assms by auto
  have "(erf_or_sum = ''erf'' \<and> 0 < time_seconds p) \<or> erf_or_sum \<noteq> ''erf''"
    using assms by auto
  then have s: "fadd (model1D (p\<lparr>initial_unit_value := 1, final_unit_value := 0\<rparr>) erf_or_sum N x)
              (model1D (p\<lparr>initial_unit_value := 0, final_unit_value := 1\<rparr>) erf_or_sum N x) = Fin 1"
    by (rule model1D_sum_one)
  show ?thesis
    using d1_no_data [of "p\<lparr>initial_unit_value := 1, final_unit_value := 0\<rparr>" erf_or_sum N center points]
      d1_no_data [of "p\<lparr>initial_unit_value := 0, final_unit_value := 1\<rparr>" erf_or_sum N center points]
      t m s by simp
qed

theorem diffusion1D_params_direction_symmetry_witness:
  "returned_profile (diffusion1D_params
       \<lparr>time_seconds = 3600, initial_unit_value = 1, final_unit_value = 0,
          microns = 200, log10D_m2s = - 13\<rparr> None None ''erf'' True 100 3)
     = Some ([- 100, 0, 100],
         map (model1D \<lparr>time_seconds = 3600, initial_unit_value = 1, final_unit_value = 0,
                         microns = 200, log10D_m2s = - 13\<rparr> ''erf'' 100) [- (1 / 10000), 0, 1 / 10000])
   \<and> returned_profile (diffusion1D_params
       \<lparr>time_seconds = 3600, initial_unit_value = 0, final_unit_value = 1,
          microns = 200, log10D_m2s = - 13\<rparr> None None ''erf'' True 100 3)
     = Some ([- 100, 0, 100],
         map (model1D \<lparr>time_seconds = 3600, initial_unit_value = 0, final_unit_value = 1,
                         microns = 200, log10D_m2s = - 13\<rparr> ''erf'' 100) [- (1 / 10000), 0, 1 / 10000])
   \<and> fadd (model1D \<lparr>time_seconds = 3600, initial_unit_value = 1, final_unit_value = 0,
                       microns = 200, log10D_m2s = - 13\<rparr> ''erf'' 100 0)
           (model1D \<lparr>time_seconds = 3600, initial_unit_value = 0, final_unit_value = 1,
                       microns = 200, log10D_m2s = - 13\<rparr> ''erf'' 100 0) = Fin 1"
  using diffusion1D_params_direction_symmetry
    [of "''erf''" "\<lparr>time_seconds = 3600, initial_unit_value = 1, final_unit_value = 0,
           microns = 200, log10D_m2s = - 13\<rparr>" 100 True 3 0]
  by (simp add: linspace_3)


section \<open>Properties of the three-dimensional models\<close>

lemma profiles1D_ok:
  assumes "\<forall>q \<in> set ps. 0 \<le> time_seconds q"
  shows "profiles1D ps points =
           ([], Inr (map (\<lambda>q. map (\<lambda>x. x * 1000000)
                                (linspace (- (microns q / 1000000 / 2)) (microns q / 1000000 / 2) points)) ps,
                     map (\<lambda>q. map (model1D q ''erf'' 100)
                                (linspace (- (microns q / 1000000 / 2)) (microns q / 1000000 / 2) points)) ps))"
  using assms
proof (induction ps)
  case Nil
  then show ?case by simp
next
  case (Cons q ps)
  have "diffusion1D_params q None None ''erf'' True 100 points =
          ([], Inr (Ret_profile
              (map (\<lambda>x. x * 1000000)
                 (linspace (- (microns q / 1000000 / 2)) (microns q / 1000000 / 2) points))
              (map (model1D q ''erf'' 100)
                 (linspace (- (microns q / 1000000 / 2)) (microns q / 1000000 / 2) points))))"
    using Cons.prems by (intro d1_no_data) simp_all
  then show ?case
    using Cons by simp
qed

lemma profiles1D_negative_time:
  assumes "time_seconds q < 0"
  shows "profiles1D (q # ps) points = ([Line (Text ''no negative time'')], Inl TypeError)"
  using assms by (simp add: diffusion1D_params_def Let_def)

lemma upt_3: "[0..<3] = [0, Suc 0, Suc (Suc 0)]"
  by (simp add: upt_rec numeral_3_eq_3)

lemma npi_fields_exist:
  assumes "0 \<le> time_seconds p" and "0 < points"
  shows "\<exists>v s pos. diffusion3Dnpi_params p None None erf_or_sum centered N points
                     = ([], Inr (Npi_fields v s pos))"
proof -
  have "profiles1D (map f [0..<3]) points =
           ([], Inr (map (\<lambda>q. map (\<lambda>x. x * 1000000)
                                (linspace (- (microns q / 1000000 / 2)) (microns q / 1000000 / 2) points)) (map f [0..<3]),
                     map (\<lambda>q. map (model1D q ''erf'' 100)
                                (linspace (- (microns q / 1000000 / 2)) (microns q / 1000000 / 2) points)) (map f [0..<3])))"
    if "\<And>k. time_seconds (f k) = time_seconds p" for f :: "nat \<Rightarrow> values1D"
    using that assms(1) by (intro profiles1D_ok) simp
  then show ?thesis
    using assms(2)
    by (simp add: diffusion3Dnpi_params_def fitting_check_def Let_def split_def)
qed

lemma npi_negative_time:
  assumes "time_seconds p < 0"
  shows "diffusion3Dnpi_params p None None erf_or_sum centered N points
           = ([Line (Text ''no negative time'')], Inl TypeError)"
proof -
  have "profiles1D (map f [0..<3]) points = ([Line (Text ''no negative time'')], Inl TypeError)"
    if "\<And>k. time_seconds (f k) = time_seconds p" for f :: "nat \<Rightarrow> values1D"
    unfolding upt_3 list.map using that assms by (intro profiles1D_negative_time) simp
  then show ?thesis
    by (simp add: diffusion3Dnpi_params_def fitting_check_def Let_def split_def)
qed


text \<open>
  C8 (as stated) fails for a negative time: the field is evaluated before the ray paths
  are looked at, the one-dimensional model prints its message and returns \<open>None\<close>, and
  unpacking that raises \<open>TypeError\<close>; the call ends with that exception and says nothing
  about the ray path.
\<close>

theorem diffusion3Dwb_params_negative_time_counterexample:
  "diffusion3Dwb_params
       \<lparr>time_seconds = - 1, initial_unit_value = 1, final_unit_value = 0,
          microns3 = (2000, 2000, 2000), log10Dx = - 13, log10Dy = - 13, log10Dz = - 13\<rparr>
       None None (Some (''a'', ''a'', ''a'')) ''erf'' 50
     = ([Line (Text ''no negative time'')], Inl TypeError)"
  by (simp add: diffusion3Dwb_params_def npi_negative_time)

text \<open>
  C8 (amended): with non-negative time and at least one point, calling
  \<open>diffusion3Dwb_params\<close> with a ray-path entry that is not one of the two letters valid
  for its profile (so also the profile's own axis) prints, after the lines of the data
  check, the message that names the two allowed values for the first such entry, and
  returns \<open>None\<close>: no whole-block profile and no residual.
\<close>

theorem diffusion3Dwb_params_raypath_validation:
  assumes \<open>0 \<le> time_seconds p\<close> and \<open>0 < points\<close>
    and \<open>(item raypaths 0 \<noteq> ''b'' \<and> item raypaths 0 \<noteq> ''c'')
         \<or> (item raypaths 1 \<noteq> ''a'' \<and> item raypaths 1 \<noteq> ''c'')
         \<or> (item raypaths 2 \<noteq> ''a'' \<and> item raypaths 2 \<noteq> ''b'')\<close>
  shows \<open>diffusion3Dwb_params p data_x data_y (Some raypaths) erf_or_sum points =
           (fst (fitting_check data_x data_y) @
            [Line (Text
               (if item raypaths 0 \<noteq> ''b'' \<and> item raypaths 0 \<noteq> ''c''
                then ''raypaths[0] for profile || a must be "b" or "c"''
                else if item raypaths 1 \<noteq> ''a'' \<and> item raypaths 1 \<noteq> ''c''
                then ''raypaths[1] for profile || b must be "a" or "c"''
                else ''raypaths[2] for profile || c must be "a" or "b"''))],
            Inr Wb_None)\<close>
proof -
  obtain v s pos where
    "diffusion3Dnpi_params p None None erf_or_sum True 100 points = ([], Inr (Npi_fields v s pos))"
    using npi_fields_exist [OF assms(1,2)] by blast
  then show ?thesis
    using assms(3) by (cases raypaths) (auto simp add: diffusion3Dwb_params_def Let_def split_def)
qed

theorem diffusion3Dwb_params_raypath_validation_witness:
  \<open>diffusion3Dwb_params
       \<lparr>time_seconds = 3600, initial_unit_value = 1, final_unit_value = 0,
          microns3 = (2000, 2000, 2000), log10Dx = - 13, log10Dy = - 13, log10Dz = - 13\<rparr>
       None None (Some (''a'', ''a'', ''a'')) ''erf'' 50
     = ([Line (Text ''raypaths[0] for profile || a must be "b" or "c"'')], Inr Wb_None)\<close>
  using diffusion3Dwb_params_raypath_validation
    [of "\<lparr>time_seconds = 3600, initial_unit_value = 1, final_unit_value = 0,
           microns3 = (2000, 2000, 2000), log10Dx = - 13, log10Dy = - 13, log10Dz = - 13\<rparr>"
        50 "(''a'', ''a'', ''a'')" None None "''erf''"]
  by (simp add: fitting_check_def)

lemma erf_quarter: "0 < erf (1 / 4) \<and> erf (1 / 4) < 1 / 2"
proof -
  define a :: "nat \<Rightarrow> real" where "a n = (1 / 4) ^ (2 * n + 1) / (fact n * real (2 * n + 1))" for n
  have a_pos: "0 \<le> a n" for n
    by (simp add: a_def)
  have a_le: "a n \<le> (1 / 4) ^ n" for n
  proof -
    have "(1 / 4 :: real) ^ (2 * n + 1) \<le> (1 / 4) ^ n"
      by (rule power_decreasing) simp_all
    moreover have "(1 :: real) \<le> fact n * real (2 * n + 1)"
      by (metis fact_ge_1 mult_mono' of_nat_0_le_iff of_nat_1 of_nat_mono mult_1 le_add2 zero_le_one)
    ultimately have "(1 / 4) ^ (2 * n + 1) / (fact n * real (2 * n + 1)) \<le> (1 / 4) ^ n / 1"
      by (intro frac_le) simp_all
    then show ?thesis by (simp add: a_def)
  qed
  have a_zero: "a \<longlonglongrightarrow> 0"
  proof (rule tendsto_sandwich [where f = "\<lambda>n. 0" and h = "\<lambda>n. (1 / 4) ^ n"])
    show "(\<lambda>n. (1 / 4 :: real) ^ n) \<longlonglongrightarrow> 0"
      by (rule LIMSEQ_realpow_zero) simp_all
  qed (simp_all add: a_pos a_le)
  have a_mono: "a (Suc n) \<le> a n" for n
  proof -
    have "(1 / 4 :: real) ^ (2 * Suc n + 1) \<le> (1 / 4) ^ (2 * n + 1)"
      by (rule power_decreasing) simp_all
    moreover have "fact n * real (2 * n + 1) \<le> fact (Suc n) * real (2 * Suc n + 1)"
      by (intro mult_mono) (simp_all add: fact_mono)
    moreover have "0 < fact n * real (2 * n + 1)"
      by simp
    ultimately show ?thesis
      unfolding a_def by (intro frac_le) simp_all
  qed
  note leibniz = summable_Leibniz' [OF a_zero a_pos a_mono]
  have lower: "(\<Sum>i<2. (- 1) ^ i * a i) \<le> (\<Sum>i. (- 1) ^ i * a i)"
    using leibniz(2) [of 1] by simp
  have upper: "(\<Sum>i. (- 1) ^ i * a i) \<le> (\<Sum>i<1. (- 1) ^ i * a i)"
    using leibniz(4) [of 0] by simp
  have two: "(\<Sum>i<2. (- 1) ^ i * a i) = 47 / 192"
    by (simp add: a_def numeral_2_eq_2)
  have one: "(\<Sum>i<1. (- 1) ^ i * a i) = 1 / 4"
    by (simp add: a_def)
  have e: "erf (1 / 4) = 2 / sqrt pi * (\<Sum>i. (- 1) ^ i * a i)"
    by (simp add: erf_def a_def)
  have s: "1 < sqrt pi"
    using pi_ge_two by (simp add: real_less_rsqrt)
  have pos: "0 < (\<Sum>i. (- 1) ^ i * a i)" and le: "(\<Sum>i. (- 1) ^ i * a i) \<le> 1 / 4"
    using lower upper two one by simp_all
  have c: "0 < 2 / sqrt pi" and d: "2 / sqrt pi < 2"
    using s by (simp_all add: field_simps)
  have "2 / sqrt pi * (\<Sum>i. (- 1) ^ i * a i) \<le> 2 / sqrt pi * (1 / 4)"
    using c le by (intro mult_left_mono) simp_all
  also have "\<dots> < 2 * (1 / 4)"
    using d by (intro mult_strict_right_mono) simp_all
  finally have "2 / sqrt pi * (\<Sum>i. (- 1) ^ i * a i) < 1 / 2"
    by simp
  moreover have "0 < 2 / sqrt pi * (\<Sum>i. (- 1) ^ i * a i)"
    using pos c by (intro mult_pos_pos)
  ultimately show ?thesis
    by (simp only: e) 
qed

lemma fmul_commute: "fmul x y = fmul y x"
  by (cases x; cases y) (simp_all add: inf_times_def mult.commute)

lemma fmul_one [simp]: "fmul x (Fin 1) = x"
  by (cases x) (simp_all add: inf_times_def)

lemma fmul_assoc: "fmul (fmul x y) z = fmul x (fmul y z)"
  by (cases x; cases y; cases z)
     (auto simp add: inf_times_def mult.assoc zero_less_mult_iff mult_less_0_iff)


lemma length_model_profile [simp]: "length (model_profile q m N points) = points"
  by (simp add: model_profile_def)

lemma npi_isotropic_slices:
  assumes "0 \<le> t" and "0 < points"
    and ys: "ys = model_profile \<lparr>time_seconds = t, initial_unit_value = 1, final_unit_value = 0,
                                    microns = L, log10D_m2s = l\<rparr> ''erf'' 100 points"
  shows "returned_slices (diffusion3Dnpi_params
            \<lparr>time_seconds = t, initial_unit_value = 1, final_unit_value = 0,
               microns3 = (L, L, L), log10Dx = l, log10Dy = l, log10Dz = l\<rparr>
            None None erf_or_sum centered N points)
         = Some (map (\<lambda>y. fmul (fmul y (ys ! (points div 2))) (ys ! (points div 2))) ys,
                 map (\<lambda>y. fmul (fmul y (ys ! (points div 2))) (ys ! (points div 2))) ys,
                 map (\<lambda>y. fmul (fmul y (ys ! (points div 2))) (ys ! (points div 2))) ys)"
proof -
  let ?q = "\<lparr>time_seconds = t, initial_unit_value = 1, final_unit_value = 0,
              microns = L, log10D_m2s = l\<rparr>"
  let ?m = "points div 2"
  have mid: "?m < points"
    using assms(2) by simp
  have len: "length ys = points"
    by (simp add: ys)
  have prof: "profiles1D [?q, ?q, ?q] points =
      ([], Inr (map (\<lambda>q. map (\<lambda>x. x * 1000000)
                           (linspace (- (microns q / 1000000 / 2)) (microns q / 1000000 / 2) points))
                  [?q, ?q, ?q],
                [ys, ys, ys]))"
    using profiles1D_ok [of "[?q, ?q, ?q]" points] assms(1) by (simp add: ys model_profile_def)
  have b: "fmul (fmul (ys ! ?m) (ys ! e)) (ys ! ?m) = fmul (fmul (ys ! e) (ys ! ?m)) (ys ! ?m)"
    for e by (simp add: fmul_commute [of "ys ! ?m" "ys ! e"])
  have c: "fmul (fmul (ys ! ?m) (ys ! ?m)) (ys ! f) = fmul (fmul (ys ! f) (ys ! ?m)) (ys ! ?m)"
    for f
  proof -
    have "fmul (fmul (ys ! ?m) (ys ! ?m)) (ys ! f) = fmul (ys ! f) (fmul (ys ! ?m) (ys ! ?m))"
      by (rule fmul_commute)
    also have "\<dots> = fmul (fmul (ys ! f) (ys ! ?m)) (ys ! ?m)"
      by (rule fmul_assoc [symmetric])
    finally show ?thesis .
  qed
  have s: "map (\<lambda>y. fmul (fmul y (ys ! ?m)) (ys ! ?m)) ys
             = map (\<lambda>i. fmul (fmul (ys ! i) (ys ! ?m)) (ys ! ?m)) [0..<points]"
    using len by (simp add: list_eq_iff_nth_eq)
  show ?thesis
    using mid prof
    by (simp add: diffusion3Dnpi_params_def fitting_check_def Let_def split_def upt_3 s b c o_def
        del: profiles1D.simps)
qed



lemma cube_differs:
  fixes y :: real
  assumes "- 1 < y" and "y < 0"
  shows "y * y * y \<noteq> y"
proof -
  have "(- y) * (- y) < 1 * 1"
    using assms by (intro mult_strict_mono) simp_all
  then have "y * y < 1"
    by simp
  then have "y * 1 < y * (y * y)"
    using assms(2) by (rule mult_strict_left_mono_neg)
  then have "y < y * y * y"
    by (simp only: mult.assoc mult_1_right)
  then show ?thesis
    by (rule less_imp_neq [THEN not_sym])
qed

text \<open>
  C5 (as stated) fails: with equal lengths and diffusivities the three slices agree with
  each other, but each entry of a slice is the entry of the one-dimensional profile times
  the square of the profile's value at the middle index, which is not 1. Here, with three
  points, the middle entry of each slice is the cube of the middle entry of the profile.
\<close>

theorem diffusion3Dnpi_params_slices_counterexample:
  "returned_profile (diffusion1D_params
       \<lparr>time_seconds = 1, initial_unit_value = 1, final_unit_value = 0,
          microns = 1000000, log10D_m2s = 0\<rparr> None None ''erf'' True 100 3)
     = Some ([- 500000, 0, 500000],
             [Fin (erf 0 + erf (1 / 2) - 1), Fin (2 * erf (1 / 4) - 1),
              Fin (erf (1 / 2) + erf 0 - 1)])
   \<and> returned_slices (diffusion3Dnpi_params
       \<lparr>time_seconds = 1, initial_unit_value = 1, final_unit_value = 0,
          microns3 = (1000000, 1000000, 1000000), log10Dx = 0, log10Dy = 0, log10Dz = 0\<rparr>
       None None ''erf'' True 100 3)
     = Some ([Fin ((erf 0 + erf (1 / 2) - 1) * (2 * erf (1 / 4) - 1) * (2 * erf (1 / 4) - 1)),
              Fin ((2 * erf (1 / 4) - 1) * (2 * erf (1 / 4) - 1) * (2 * erf (1 / 4) - 1)),
              Fin ((erf (1 / 2) + erf 0 - 1) * (2 * erf (1 / 4) - 1) * (2 * erf (1 / 4) - 1))],
             [Fin ((erf 0 + erf (1 / 2) - 1) * (2 * erf (1 / 4) - 1) * (2 * erf (1 / 4) - 1)),
              Fin ((2 * erf (1 / 4) - 1) * (2 * erf (1 / 4) - 1) * (2 * erf (1 / 4) - 1)),
              Fin ((erf (1 / 2) + erf 0 - 1) * (2 * erf (1 / 4) - 1) * (2 * erf (1 / 4) - 1))],
             [Fin ((erf 0 + erf (1 / 2) - 1) * (2 * erf (1 / 4) - 1) * (2 * erf (1 / 4) - 1)),
              Fin ((2 * erf (1 / 4) - 1) * (2 * erf (1 / 4) - 1) * (2 * erf (1 / 4) - 1)),
              Fin ((erf (1 / 2) + erf 0 - 1) * (2 * erf (1 / 4) - 1) * (2 * erf (1 / 4) - 1))])
   \<and> (2 * erf (1 / 4) - 1) * (2 * erf (1 / 4) - 1) * (2 * erf (1 / 4) - 1) \<noteq> 2 * erf (1 / 4) - 1"
proof -
  let ?q = "\<lparr>time_seconds = 1, initial_unit_value = 1, final_unit_value = 0,
              microns = 1000000, log10D_m2s = 0\<rparr>"
  have ys: "model_profile ?q ''erf'' 100 3
              = [Fin (erf 0 + erf (1 / 2) - 1), Fin (2 * erf (1 / 4) - 1),
                 Fin (erf (1 / 2) + erf 0 - 1)]"
    by (simp add: model_profile_def linspace_3 model1D_def Let_def erf_solution_finite)
  have one: "returned_profile (diffusion1D_params ?q None None ''erf'' True 100 3)
     = Some ([- 500000, 0, 500000],
             [Fin (erf 0 + erf (1 / 2) - 1), Fin (2 * erf (1 / 4) - 1),
              Fin (erf (1 / 2) + erf 0 - 1)])"
    using d1_no_data [of ?q "''erf''" 100 True 3] ys
    by (simp add: model_profile_def linspace_3)
  have two: "returned_slices (diffusion3Dnpi_params
       \<lparr>time_seconds = 1, initial_unit_value = 1, final_unit_value = 0,
          microns3 = (1000000, 1000000, 1000000), log10Dx = 0, log10Dy = 0, log10Dz = 0\<rparr>
       None None ''erf'' True 100 3)
     = Some ([Fin ((erf 0 + erf (1 / 2) - 1) * (2 * erf (1 / 4) - 1) * (2 * erf (1 / 4) - 1)),
              Fin ((2 * erf (1 / 4) - 1) * (2 * erf (1 / 4) - 1) * (2 * erf (1 / 4) - 1)),
              Fin ((erf (1 / 2) + erf 0 - 1) * (2 * erf (1 / 4) - 1) * (2 * erf (1 / 4) - 1))],
             [Fin ((erf 0 + erf (1 / 2) - 1) * (2 * erf (1 / 4) - 1) * (2 * erf (1 / 4) - 1)),
              Fin ((2 * erf (1 / 4) - 1) * (2 * erf (1 / 4) - 1) * (2 * erf (1 / 4) - 1)),
              Fin ((erf (1 / 2) + erf 0 - 1) * (2 * erf (1 / 4) - 1) * (2 * erf (1 / 4) - 1))],
             [Fin ((erf 0 + erf (1 / 2) - 1) * (2 * erf (1 / 4) - 1) * (2 * erf (1 / 4) - 1)),
              Fin ((2 * erf (1 / 4) - 1) * (2 * erf (1 / 4) - 1) * (2 * erf (1 / 4) - 1)),
              Fin ((erf (1 / 2) + erf 0 - 1) * (2 * erf (1 / 4) - 1) * (2 * erf (1 / 4) - 1))])"
    using npi_isotropic_slices [of 1 3 _ 1000000 0 "''erf''" True 100, OF _ _ ys [symmetric]]
    by simp
  have "2 * erf (1 / 4) - 1 < 0" and "- 1 < 2 * erf (1 / 4) - 1"
    using erf_quarter by simp_all
  then have three: "(2 * erf (1 / 4) - 1) * (2 * erf (1 / 4) - 1) * (2 * erf (1 / 4) - 1)
                      \<noteq> 2 * erf (1 / 4) - 1"
    using cube_differs by blast
  show ?thesis
    using one two three by blast
qed


text \<open>
  C5 (amended): with non-negative time, at least one point, equal lengths and equal
  diffusivities on the three axes, initial value 1 and final value 0, the three centerline
  slices returned by \<open>diffusion3Dnpi_params\<close> are identical to each other, and each is the
  profile returned by \<open>diffusion1D_params\<close> for the same length, diffusivity and time with
  every entry multiplied twice by the profile's entry at the middle index \<open>points div 2\<close>.
\<close>

theorem diffusion3Dnpi_params_isotropic_slices:
  assumes "0 \<le> t" and "0 < points"
  shows "returned_profile (diffusion1D_params
            \<lparr>time_seconds = t, initial_unit_value = 1, final_unit_value = 0,
               microns = L, log10D_m2s = l\<rparr> None None ''erf'' True 100 points)
         = Some (map (\<lambda>x. x * 1000000) (linspace (- (L / 1000000 / 2)) (L / 1000000 / 2) points),
                 model_profile \<lparr>time_seconds = t, initial_unit_value = 1, final_unit_value = 0,
                                  microns = L, log10D_m2s = l\<rparr> ''erf'' 100 points)
       \<and> returned_slices (diffusion3Dnpi_params
            \<lparr>time_seconds = t, initial_unit_value = 1, final_unit_value = 0,
               microns3 = (L, L, L), log10Dx = l, log10Dy = l, log10Dz = l\<rparr>
            None None erf_or_sum centered N points)
         = Some (map (\<lambda>y. fmul (fmul y
                    (model_profile \<lparr>time_seconds = t, initial_unit_value = 1, final_unit_value = 0,
                                     microns = L, log10D_m2s = l\<rparr> ''erf'' 100 points ! (points div 2)))
                    (model_profile \<lparr>time_seconds = t, initial_unit_value = 1, final_unit_value = 0,
                                     microns = L, log10D_m2s = l\<rparr> ''erf'' 100 points ! (points div 2)))
                   (model_profile \<lparr>time_seconds = t, initial_unit_value = 1, final_unit_value = 0,
                                    microns = L, log10D_m2s = l\<rparr> ''erf'' 100 points),
                 map (\<lambda>y. fmul (fmul y
                    (model_profile \<lparr>time_seconds = t, initial_unit_value = 1, final_unit_value = 0,
                                     microns = L, log10D_m2s = l\<rparr> ''erf'' 100 points ! (points div 2)))
                    (model_profile \<lparr>time_seconds = t, initial_unit_value = 1, final_unit_value = 0,
                                     microns = L, log10D_m2s = l\<rparr> ''erf'' 100 points ! (points div 2)))
                   (model_profile \<lparr>time_seconds = t, initial_unit_value = 1, final_unit_value = 0,
                                    microns = L, log10D_m2s = l\<rparr> ''erf'' 100 points),
                 map (\<lambda>y. fmul (fmul y
                    (model_profile \<lparr>time_seconds = t, initial_unit_value = 1, final_unit_value = 0,
                                     microns = L, log10D_m2s = l\<rparr> ''erf'' 100 points ! (points div 2)))
                    (model_profile \<lparr>time_seconds = t, initial_unit_value = 1, final_unit_value = 0,
                                     microns = L, log10D_m2s = l\<rparr> ''erf'' 100 points ! (points div 2)))
                   (model_profile \<lparr>time_seconds = t, initial_unit_value = 1, final_unit_value = 0,
                                    microns = L, log10D_m2s = l\<rparr> ''erf'' 100 points))"
proof -
  let ?q = "\<lparr>time_seconds = t, initial_unit_value = 1, final_unit_value = 0,
              microns = L, log10D_m2s = l\<rparr>"
  have "diffusion1D_params ?q None None ''erf'' True 100 points =
          ([], Inr (Ret_profile
             (map (\<lambda>x. x * 1000000) (linspace (- (L / 1000000 / 2)) (L / 1000000 / 2) points))
             (model_profile ?q ''erf'' 100 points)))"
    using d1_no_data [of ?q "''erf''" 100 True points] assms(1) by (simp add: model_profile_def)
  then have one: "returned_profile (diffusion1D_params ?q None None ''erf'' True 100 points)
         = Some (map (\<lambda>x. x * 1000000) (linspace (- (L / 1000000 / 2)) (L / 1000000 / 2) points),
                 model_profile ?q ''erf'' 100 points)"
    by simp
  show ?thesis
    using one npi_isotropic_slices [OF assms refl, of L l erf_or_sum centered N] by blast
qed

theorem diffusion3Dnpi_params_isotropic_slices_witness:
  "returned_slices (diffusion3Dnpi_params
       \<lparr>time_seconds = 3600, initial_unit_value = 1, final_unit_value = 0,
          microns3 = (2000, 2000, 2000), log10Dx = - 13, log10Dy = - 13, log10Dz = - 13\<rparr>
       None None ''erf'' True 100 3)
     = Some (map (\<lambda>y. fmul (fmul y
                (model_profile \<lparr>time_seconds = 3600, initial_unit_value = 1, final_unit_value = 0,
                                 microns = 2000, log10D_m2s = - 13\<rparr> ''erf'' 100 3 ! 1))
                (model_profile \<lparr>time_seconds = 3600, initial_unit_value = 1, final_unit_value = 0,
                                 microns = 2000, log10D_m2s = - 13\<rparr> ''erf'' 100 3 ! 1))
               (model_profile \<lparr>time_seconds = 3600, initial_unit_value = 1, final_unit_value = 0,
                                microns = 2000, log10D_m2s = - 13\<rparr> ''erf'' 100 3),
             map (\<lambda>y. fmul (fmul y
                (model_profile \<lparr>time_seconds = 3600, initial_unit_value = 1, final_unit_value = 0,
                                 microns = 2000, log10D_m2s = - 13\<rparr> ''erf'' 100 3 ! 1))
                (model_profile \<lparr>time_seconds = 3600, initial_unit_value = 1, final_unit_value = 0,
                                 microns = 2000, log10D_m2s = - 13\<rparr> ''erf'' 100 3 ! 1))
               (model_profile \<lparr>time_seconds = 3600, initial_unit_value = 1, final_unit_value = 0,
                                microns = 2000, log10D_m2s = - 13\<rparr> ''erf'' 100 3),
             map (\<lambda>y. fmul (fmul y
                (model_profile \<lparr>time_seconds = 3600, initial_unit_value = 1, final_unit_value = 0,
                                 microns = 2000, log10D_m2s = - 13\<rparr> ''erf'' 100 3 ! 1))
                (model_profile \<lparr>time_seconds = 3600, initial_unit_value = 1, final_unit_value = 0,
                                 microns = 2000, log10D_m2s = - 13\<rparr> ''erf'' 100 3 ! 1))
               (model_profile \<lparr>time_seconds = 3600, initial_unit_value = 1, final_unit_value = 0,
                                microns = 2000, log10D_m2s = - 13\<rparr> ''erf'' 100 3))"
  using diffusion3Dnpi_params_isotropic_slices [of 3600 3 2000 "- 13" "''erf''" True 100]
  by simp

lemma argmin_nearest:
  assumes "xs \<noteq> []"
  shows "argmin xs < length xs \<and> (\<forall>j<length xs. xs ! argmin xs \<le> xs ! j)"
  using assms
proof (induction xs rule: argmin.induct)
  case 1
  then show ?case by simp
next
  case (2 x)
  then show ?case by simp
next
  case (3 x y ys)
  let ?i = "argmin (y # ys)"
  have ih: "?i < length (y # ys)" "\<forall>j<length (y # ys). (y # ys) ! ?i \<le> (y # ys) ! j"
    using 3 by simp_all
  show ?case
  proof (cases "x \<le> (y # ys) ! ?i")
    case True
    have "x \<le> (x # y # ys) ! j" if "j < length (x # y # ys)" for j
    proof (cases j)
      case 0
      then show ?thesis by simp
    next
      case (Suc j')
      then have "(y # ys) ! ?i \<le> (y # ys) ! j'"
        using ih(2) that by simp
      then show ?thesis
        using True Suc by simp
    qed
    then show ?thesis
      using True by (simp add: Let_def)
  next
    case False
    have "(y # ys) ! ?i \<le> (x # y # ys) ! j" if "j < length (x # y # ys)" for j
    proof (cases j)
      case 0
      then show ?thesis using False by simp
    next
      case (Suc j')
      then show ?thesis
        using ih(2) that by simp
    qed
    then show ?thesis
      using False ih(1) by (simp add: Let_def)
  qed
qed

lemma map_upt_map2:
  assumes "length xs = length ys"
  shows "map (\<lambda>i. f (xs ! i) (ys ! i)) [0..<length xs] = map2 f xs ys"
proof (rule nth_equalityI)
  show "length (map (\<lambda>i. f (xs ! i) (ys ! i)) [0..<length xs]) = length (map2 f xs ys)"
    using assms by simp
next
  fix i
  assume "i < length (map (\<lambda>i. f (xs ! i) (ys ! i)) [0..<length xs])"
  then have "i < length xs" by simp
  then show "map (\<lambda>i. f (xs ! i) (ys ! i)) [0..<length xs] ! i = map2 f xs ys ! i"
    using assms by simp
qed

lemma upt_012: "[0..<3] = [0, 1, 2]"
  by (simp add: upt_rec numeral_3_eq_3)

lemma argmin_first:
  assumes "xs \<noteq> []"
  shows "\<forall>j<argmin xs. xs ! argmin xs < xs ! j"
  using assms
proof (induction xs rule: argmin.induct)
  case 1
  then show ?case by simp
next
  case (2 x)
  then show ?case by simp
next
  case (3 x y ys)
  let ?i = "argmin (y # ys)"
  have ih: "\<forall>j<?i. (y # ys) ! ?i < (y # ys) ! j"
    using 3 by simp
  show ?case
  proof (cases "x \<le> (y # ys) ! ?i")
    case True
    then show ?thesis by (simp add: Let_def)
  next
    case False
    have "(y # ys) ! ?i < (x # y # ys) ! j" if "j < Suc ?i" for j
    proof (cases j)
      case 0
      then show ?thesis using False by simp
    next
      case (Suc j')
      then show ?thesis using ih that by simp
    qed
    then show ?thesis
      using False by (simp add: Let_def)
  qed
qed

lemma argmin_nearest_index:
  assumes "grid \<noteq> []"
  shows "argmin (map (\<lambda>w. \<bar>w - x\<bar>) grid) = nearest_index grid x"
proof -
  let ?ds = "map (\<lambda>w. \<bar>w - x\<bar>) grid"
  let ?i = "argmin ?ds"
  have ne: "?ds \<noteq> []"
    using assms by simp
  from argmin_nearest [OF ne]
  have i0: "?i < length ?ds" and le0: "\<And>j. j < length ?ds \<Longrightarrow> ?ds ! ?i \<le> ?ds ! j"
    by blast+
  have i: "?i < length grid"
    using i0 by simp
  have d: "?ds ! j = \<bar>grid ! j - x\<bar>" if "j < length grid" for j
    using that by (rule nth_map)
  have le: "\<bar>grid ! ?i - x\<bar> \<le> \<bar>grid ! j - x\<bar>" if "j < length grid" for j
    using le0 [of j] that d [OF that] d [OF i] by simp
  have first: "?ds ! ?i < ?ds ! j" if "j < ?i" for j
    using argmin_first [OF ne] that by blast
  have holds: "?i < length grid \<and> (\<forall>j<length grid. \<bar>grid ! ?i - x\<bar> \<le> \<bar>grid ! j - x\<bar>)"
    using i le by blast
  have least: "?i \<le> y"
    if y: "y < length grid \<and> (\<forall>j<length grid. \<bar>grid ! y - x\<bar> \<le> \<bar>grid ! j - x\<bar>)" for y
  proof (rule ccontr)
    assume "\<not> ?i \<le> y"
    then have lt: "y < ?i" by simp
    then have "?ds ! ?i < ?ds ! y"
      by (rule first)
    then have "\<bar>grid ! ?i - x\<bar> < \<bar>grid ! y - x\<bar>"
      using d [OF i] d [of y] y by simp
    moreover have "\<bar>grid ! y - x\<bar> \<le> \<bar>grid ! ?i - x\<bar>"
      using y i by blast
    ultimately show False by simp
  qed
  show ?thesis
    unfolding nearest_index_def using holds least by (rule Least_equality [symmetric])
qed

lemma residuals_of_eq:
  assumes "length xs = length ys" and "grid \<noteq> []"
  shows "residuals_of grid profile xs ys = Inr (nearest_residuals grid profile xs ys)"
  unfolding residuals_of_def nearest_residuals_def Let_def
  using assms(1) map_upt_map2 [OF assms(1)] by (simp add: argmin_nearest_index [OF assms(2)])

lemma foldl_fadd_Fin:
  "foldl (\<lambda>s n. fadd s (Fin (f n))) (Fin a) ns = Fin (a + (\<Sum>n\<leftarrow>ns. f n))"
  by (induction ns arbitrary: a) (simp_all add: add.assoc)

text \<open>On finite values the path average is the arithmetic mean.\<close>

lemma path_mean_finite:
  assumes "0 < n"
  shows "path_mean n (\<lambda>i. Fin (r i)) = Fin ((\<Sum>i<n. r i) / real n)"
proof -
  have "foldl fadd (Fin 0) (map (\<lambda>i. Fin (r i)) [0..<n]) = foldl (\<lambda>s i. fadd s (Fin (r i))) (Fin 0) [0..<n]"
    by (simp add: foldl_map)
  also have "\<dots> = Fin (0 + (\<Sum>i\<leftarrow>[0..<n]. r i))"
    by (rule foldl_fadd_Fin)
  also have "\<dots> = Fin (\<Sum>i<n. r i)"
    by (simp add: interv_sum_list_conv_sum_set_nat atLeast0LessThan)
  finally show ?thesis
    using assms by (simp add: path_mean_def)
qed

lemma path_mean_fmean:
  "fmean (map g [0..<n]) = path_mean n g"
  by (simp add: fmean_def path_mean_def)


lemma npi_field:
  assumes "0 \<le> time_seconds p" and "0 < points"
  shows "\<exists>s pos. diffusion3Dnpi_params p None None erf_or_sum centered N points
           = ([], Inr (Npi_fields
                (map (\<lambda>d. map (\<lambda>e. map (\<lambda>f. field_value p points d e f) [0..<points])
                                 [0..<points]) [0..<points]) s pos))"
proof -
  have "profiles1D (map f [0..<3]) points =
           ([], Inr (map (\<lambda>q. map (\<lambda>x. x * 1000000)
                                (linspace (- (microns q / 1000000 / 2)) (microns q / 1000000 / 2) points)) (map f [0..<3]),
                     map (\<lambda>q. model_profile q ''erf'' 100 points) (map f [0..<3])))"
    if "\<And>k. time_seconds (f k) = time_seconds p" for f :: "nat \<Rightarrow> values1D"
    using that assms(1) profiles1D_ok [of "map f [0..<3]" points]
    by (simp add: model_profile_def)
  moreover obtain La Lb Lc where "microns3 p = (La, Lb, Lc)"
    by (cases "microns3 p")
  moreover have "\<not> points \<le> points div 2"
    using assms(2) by simp
  ultimately show ?thesis
    by (simp add: diffusion3Dnpi_params_def fitting_check_def Let_def split_def field_value_def
        o_def)
qed


lemma path_mean_cong:
  assumes "n = m" and "\<And>i. i < m \<Longrightarrow> g i = h i"
  shows "path_mean n g = path_mean m h"
proof -
  have eq: "map g [0..<m] = map h [0..<m]"
    using assms(2) by simp
  show ?thesis
    by (simp only: path_mean_def assms(1) eq)
qed

lemma nearest_index_attained:
  assumes "grid \<noteq> []"
  shows "nearest_index grid x < length grid
       \<and> (\<forall>j<length grid. \<bar>grid ! nearest_index grid x - x\<bar> \<le> \<bar>grid ! j - x\<bar>)
       \<and> (\<forall>j<nearest_index grid x. \<bar>grid ! nearest_index grid x - x\<bar> < \<bar>grid ! j - x\<bar>)"
proof -
  let ?ds = "map (\<lambda>w. \<bar>w - x\<bar>) grid"
  have ne: "?ds \<noteq> []"
    using assms by simp
  have eq: "argmin ?ds = nearest_index grid x"
    using assms by (rule argmin_nearest_index)
  from argmin_nearest [OF ne]
  have i0: "argmin ?ds < length ?ds" and le0: "\<And>j. j < length ?ds \<Longrightarrow> ?ds ! argmin ?ds \<le> ?ds ! j"
    by blast+
  have i: "nearest_index grid x < length grid"
    using i0 eq by simp
  have d: "?ds ! j = \<bar>grid ! j - x\<bar>" if "j < length grid" for j
    using that by (rule nth_map)
  have le: "\<bar>grid ! nearest_index grid x - x\<bar> \<le> \<bar>grid ! j - x\<bar>" if "j < length grid" for j
    using le0 [of j] that d [OF that] d [OF i] eq by simp
  have first: "\<bar>grid ! nearest_index grid x - x\<bar> < \<bar>grid ! j - x\<bar>"
    if "j < nearest_index grid x" for j
  proof -
    have j: "j < length grid"
      using that i by simp
    have "?ds ! argmin ?ds < ?ds ! j"
      using argmin_first [OF ne] that eq by simp
    then show ?thesis
      using d [OF j] d [OF i] eq by simp
  qed
  show ?thesis
    using i le first by blast
qed


lemma linspace_nonempty:
  assumes "0 < n"
  shows "linspace a b n \<noteq> []"
  using assms by (metis length_linspace less_numeral_extra(3) list.size(3))

text \<open>
  C2: in fitting mode (non-negative time, at least one point, valid ray paths, and in each
  direction as many observed values as observed positions) \<open>diffusion3Dwb_params\<close> prints
  that it fits and returns one flat vector: the residuals of direction a, then b, then c.
  The residual of an observed point is the whole-block model value at the grid index
  nearest to the observed position, minus the observed value. The grid of a direction is
  \<open>linspace 0 length points\<close> and the whole-block values are the path averages of the
  product field, both as the call without data returns them; the nearest index lies in the
  grid, no grid position is closer to the observed position, and every earlier grid
  position is farther from it.
\<close>

theorem diffusion3Dwb_params_residuals:
  assumes "0 \<le> time_seconds p" and "0 < points"
    and "ra = ''b'' \<or> ra = ''c''" and "rb = ''a'' \<or> rb = ''c''" and "rc = ''a'' \<or> rc = ''b''"
    and "length xa = length ya" and "length xb = length yb" and "length xc = length yc"
  shows "diffusion3Dwb_params p None None (Some (ra, rb, rc)) erf_or_sum points
           = ([], Inr (Wb_profiles
                (linspace 0 (item (microns3 p) 0) points, linspace 0 (item (microns3 p) 1) points,
                 linspace 0 (item (microns3 p) 2) points)
                (whole_block p points (ra, rb, rc))))
       \<and> diffusion3Dwb_params p (Some (xa, xb, xc)) (Some (ya, yb, yc)) (Some (ra, rb, rc))
             erf_or_sum points
           = ([Line (Text ''fitting to data'')],
              Inr (Wb_residuals
                (nearest_residuals (linspace 0 (item (microns3 p) 0) points)
                   (item (whole_block p points (ra, rb, rc)) 0) xa ya
                 @ nearest_residuals (linspace 0 (item (microns3 p) 1) points)
                     (item (whole_block p points (ra, rb, rc)) 1) xb yb
                 @ nearest_residuals (linspace 0 (item (microns3 p) 2) points)
                     (item (whole_block p points (ra, rb, rc)) 2) xc yc)))
       \<and> (nearest_index (linspace 0 L points) x < points
            \<and> (\<forall>j<points. \<bar>linspace 0 L points ! nearest_index (linspace 0 L points) x - x\<bar>
                              \<le> \<bar>linspace 0 L points ! j - x\<bar>)
            \<and> (\<forall>j<nearest_index (linspace 0 L points) x.
                   \<bar>linspace 0 L points ! nearest_index (linspace 0 L points) x - x\<bar>
                     < \<bar>linspace 0 L points ! j - x\<bar>))"
proof -
  let ?F = "field_value p points"
  define V where
    "V = map (\<lambda>d. map (\<lambda>e. map (\<lambda>f. ?F d e f) [0..<points]) [0..<points]) [0..<points]"
  obtain s pos where npi:
    "diffusion3Dnpi_params p None None erf_or_sum True 100 points = ([], Inr (Npi_fields V s pos))"
    using npi_field [OF assms(1,2)] unfolding V_def by blast
  define mid where "mid = points div 2"
  have mid: "mid < points"
    using assms(2) by (simp add: mid_def)
  define raypathA where
    "raypathA = map (\<lambda>e. map (\<lambda>f. fmean (map (\<lambda>d. ((V ! d) ! e) ! f) [0..<points]))
                       [0..<points]) [0..<points]"
  define raypathB where
    "raypathB = map (\<lambda>d. map (\<lambda>f. fmean (map (\<lambda>e. ((V ! d) ! e) ! f) [0..<points]))
                       [0..<points]) [0..<points]"
  define raypathC where
    "raypathC = map (\<lambda>d. map (\<lambda>e. fmean (map (\<lambda>f. ((V ! d) ! e) ! f) [0..<points]))
                       [0..<points]) [0..<points]"
  define wa where "wa = (if ra = ''b'' then map (\<lambda>row. row ! mid) raypathB
                         else map (\<lambda>row. row ! mid) raypathC)"
  define wb where "wb = (if rb = ''a'' then map (\<lambda>row. row ! mid) raypathA else raypathC ! mid)"
  define wc where "wc = (if rc = ''a'' then raypathA ! mid else raypathB ! mid)"
  define pos_of where "pos_of k = linspace 0 (item (microns3 p) k) points" for k
  have grid: "pos_of k \<noteq> []" for k
    using assms(2) by (metis length_linspace less_numeral_extra(3) list.size(3) pos_of_def)
  have shape: "np_shape (xa, xb, xc) = np_shape (ya, yb, yc)"
    using assms(6-8) by simp
  have A: "raypathA = map (\<lambda>e. map (\<lambda>f. path_mean points (\<lambda>d. ?F d e f)) [0..<points]) [0..<points]"
    unfolding raypathA_def V_def by (simp add: path_mean_fmean cong: map_cong path_mean_cong)
  have B: "raypathB = map (\<lambda>d. map (\<lambda>f. path_mean points (\<lambda>e. ?F d e f)) [0..<points]) [0..<points]"
    unfolding raypathB_def V_def by (simp add: path_mean_fmean cong: map_cong path_mean_cong)
  have C: "raypathC = map (\<lambda>d. map (\<lambda>e. path_mean points (\<lambda>f. ?F d e f)) [0..<points]) [0..<points]"
    unfolding raypathC_def V_def by (simp add: path_mean_fmean cong: map_cong path_mean_cong)
  have wb_eq: "(wa, wb, wc) = whole_block p points (ra, rb, rc)"
    using mid
    by (simp add: whole_block_def Let_def wa_def wb_def wc_def A B C o_def mid_def [symmetric]
        cong: map_cong)
  have first: "diffusion3Dwb_params p None None (Some (ra, rb, rc)) erf_or_sum points
                 = ([], Inr (Wb_profiles (pos_of 0, pos_of 1, pos_of 2) (wa, wb, wc)))"
    using npi assms(3-5)
    unfolding diffusion3Dwb_params_def fitting_check_def Let_def
    by (simp add: mid_def raypathA_def raypathB_def raypathC_def wa_def wb_def wc_def pos_of_def)
  have second: "diffusion3Dwb_params p (Some (xa, xb, xc)) (Some (ya, yb, yc)) (Some (ra, rb, rc))
                  erf_or_sum points
                 = ([Line (Text ''fitting to data'')],
                    Inr (Wb_residuals (nearest_residuals (pos_of 0) wa xa ya
                           @ nearest_residuals (pos_of 1) wb xb yb
                           @ nearest_residuals (pos_of 2) wc xc yc)))"
    using npi assms(3-5) shape assms(6-8) linspace_nonempty [OF assms(2)]
    unfolding diffusion3Dwb_params_def fitting_check_def Let_def
    by (simp add: mid_def raypathA_def raypathB_def raypathC_def wa_def wb_def wc_def pos_of_def
        upt_012 residuals_of_eq del: np_shape.simps)
  have "linspace 0 L points \<noteq> []"
    using assms(2) by (metis length_linspace less_numeral_extra(3) list.size(3))
  from nearest_index_attained [OF this, of x]
  have third: "nearest_index (linspace 0 L points) x < points
            \<and> (\<forall>j<points. \<bar>linspace 0 L points ! nearest_index (linspace 0 L points) x - x\<bar>
                              \<le> \<bar>linspace 0 L points ! j - x\<bar>)
            \<and> (\<forall>j<nearest_index (linspace 0 L points) x.
                   \<bar>linspace 0 L points ! nearest_index (linspace 0 L points) x - x\<bar>
                     < \<bar>linspace 0 L points ! j - x\<bar>)"
    by simp
  show ?thesis
    unfolding wb_eq [symmetric]
    using first second third by (simp add: pos_of_def)
qed


theorem diffusion3Dwb_params_residuals_witness:
  "diffusion3Dwb_params
       \<lparr>time_seconds = 3600, initial_unit_value = 1, final_unit_value = 0,
          microns3 = (2000, 1000, 1500), log10Dx = - 13, log10Dy = - 14, log10Dz = - 12\<rparr>
       None None (Some (''c'', ''c'', ''b'')) ''erf'' 50
     = ([], Inr (Wb_profiles
          (linspace 0 2000 50, linspace 0 1000 50, linspace 0 1500 50)
          (whole_block
             \<lparr>time_seconds = 3600, initial_unit_value = 1, final_unit_value = 0,
                microns3 = (2000, 1000, 1500), log10Dx = - 13, log10Dy = - 14, log10Dz = - 12\<rparr>
             50 (''c'', ''c'', ''b''))))
   \<and> diffusion3Dwb_params
       \<lparr>time_seconds = 3600, initial_unit_value = 1, final_unit_value = 0,
          microns3 = (2000, 1000, 1500), log10Dx = - 13, log10Dy = - 14, log10Dz = - 12\<rparr>
       (Some ([0, 990, 2000], [500], [])) (Some ([1 / 4, 1, 1 / 3], [9 / 10], []))
       (Some (''c'', ''c'', ''b'')) ''erf'' 50
     = ([Line (Text ''fitting to data'')],
        Inr (Wb_residuals
          (nearest_residuals (linspace 0 2000 50)
             (item (whole_block
                \<lparr>time_seconds = 3600, initial_unit_value = 1, final_unit_value = 0,
                   microns3 = (2000, 1000, 1500), log10Dx = - 13, log10Dy = - 14, log10Dz = - 12\<rparr>
                50 (''c'', ''c'', ''b'')) 0) [0, 990, 2000] [1 / 4, 1, 1 / 3]
           @ nearest_residuals (linspace 0 1000 50)
               (item (whole_block
                  \<lparr>time_seconds = 3600, initial_unit_value = 1, final_unit_value = 0,
                     microns3 = (2000, 1000, 1500), log10Dx = - 13, log10Dy = - 14, log10Dz = - 12\<rparr>
                  50 (''c'', ''c'', ''b'')) 1) [500] [9 / 10])))
   \<and> nearest_index (linspace 0 2000 50) 990 < 50
   \<and> \<bar>linspace 0 2000 50 ! nearest_index (linspace 0 2000 50) 990 - 990\<bar>
         \<le> \<bar>linspace 0 2000 50 ! 24 - 990\<bar>"
  using diffusion3Dwb_params_residuals
    [where p = "\<lparr>time_seconds = 3600, initial_unit_value = 1, final_unit_value = 0,
           microns3 = (2000, 1000, 1500), log10Dx = - 13, log10Dy = - 14, log10Dz = - 12\<rparr>"
       and points = 50 and ra = "''c''" and rb = "''c''" and rc = "''b''"
       and xa = "[0, 990, 2000]" and ya = "[1 / 4, 1, 1 / 3]" and xb = "[500]" and yb = "[9 / 10]"
       and xc = "[]" and yc = "[]" and erf_or_sum = "''erf''" and L = 2000 and x = 990]
  by (auto simp add: nearest_residuals_def)


section \<open>Properties of the thin slab\<close>

subsection \<open>A bound on the sum of odd reciprocal squares\<close>

text \<open>
  Every partial sum of \<open>8 / ((2n+1)\<^sup>2 \<pi>\<^sup>2)\<close> is at most 1. The proof halves the angle in
  \<open>1 / sin\<^sup>2 x\<close> repeatedly, which writes 1 as a mean of such terms over the odd multiples
  of \<open>\<pi> / 2 ^ (m + 2)\<close>, and bounds each term from below with \<open>sin y \<le> y\<close>.
\<close>

lemma inv_sin_sq_half:
  fixes x :: real
  assumes "sin x \<noteq> 0"
  shows "1 / (sin x)\<^sup>2 = (1 / (sin (x / 2))\<^sup>2 + 1 / (sin ((x + pi) / 2))\<^sup>2) / 4"
proof -
  have d: "sin x = 2 * sin (x / 2) * cos (x / 2)"
    using sin_double [of "x / 2"] by simp
  have c: "sin ((x + pi) / 2) = cos (x / 2)"
    using sin_add [of "x / 2" "pi / 2"] by (simp add: add_divide_distrib)
  have s0: "sin (x / 2) \<noteq> 0" and c0: "cos (x / 2) \<noteq> 0"
    using assms d by auto
  have "1 / (sin (x / 2))\<^sup>2 + 1 / (cos (x / 2))\<^sup>2
          = ((cos (x / 2))\<^sup>2 + (sin (x / 2))\<^sup>2) / ((sin (x / 2))\<^sup>2 * (cos (x / 2))\<^sup>2)"
    using s0 c0 by (simp add: field_simps)
  also have "\<dots> = 1 / ((sin (x / 2))\<^sup>2 * (cos (x / 2))\<^sup>2)"
    by (simp add: sin_cos_squared_add2)
  also have "\<dots> = 4 / (sin x)\<^sup>2"
    by (simp add: d power_mult_distrib)
  finally show ?thesis
    by (simp add: c)
qed

lemma sum_split_double:
  fixes f :: "nat \<Rightarrow> real"
  shows "(\<Sum>k<2 * M. f k) = (\<Sum>k<M. f k) + (\<Sum>k<M. f (k + M))"
proof -
  have "(\<Sum>k<2 * M. f k) = sum f {0..<M} + sum f {M..<2 * M}"
    by (simp add: sum.atLeastLessThan_concat atLeast0LessThan [symmetric])
  also have "sum f {M..<2 * M} = sum f {0 + M..<M + M}"
    by (simp add: mult_2)
  also have "\<dots> = (\<Sum>k = 0..<M. f (k + M))"
    by (rule sum.shift_bounds_nat_ivl)
  finally show ?thesis
    by (simp add: atLeast0LessThan)
qed



lemma sum_add_div:
  fixes f g :: "nat \<Rightarrow> real"
  shows "(\<Sum>k<m. (f k + g k) / c) = ((\<Sum>k<m. f k) + (\<Sum>k<m. g k)) / c"
  by (simp add: sum.distrib flip: sum_divide_distrib)

lemma div_pow_step:
  fixes A B :: real
  assumes "A = B / 4"
  shows "A / 4 ^ n = B / 4 ^ Suc n"
proof -
  have "B / 4 ^ Suc n = (B / 4) / 4 ^ n"
    by simp
  then show ?thesis
    by (simp only: assms)
qed

lemma inv_sin_sq_sum:
  fixes x :: real
  assumes "0 < x" and "x < pi"
  shows "1 / (sin x)\<^sup>2 = (\<Sum>k<2 ^ n. 1 / (sin ((x + real k * pi) / 2 ^ n))\<^sup>2) / 4 ^ n"
proof (induction n)
  case 0
  then show ?case by simp
next
  case (Suc n)
  let ?y = "\<lambda>k. (x + real k * pi) / 2 ^ n"
  have step: "1 / (sin (?y k))\<^sup>2
                = (1 / (sin ((x + real k * pi) / 2 ^ Suc n))\<^sup>2
                   + 1 / (sin ((x + real (k + 2 ^ n) * pi) / 2 ^ Suc n))\<^sup>2) / 4"
    if "k < 2 ^ n" for k
  proof -
    have "Suc k \<le> 2 ^ n"
      using that by simp
    then have "real (Suc k) \<le> real (2 ^ n)"
      by (simp only: of_nat_le_iff)
    then have k1: "real k + 1 \<le> 2 ^ n"
      by simp
    have "x + real k * pi < pi + real k * pi"
      using assms(2) by simp
    also have "\<dots> = (real k + 1) * pi"
      by (simp add: algebra_simps)
    also have "\<dots> \<le> 2 ^ n * pi"
      using k1 by (intro mult_right_mono) simp_all
    finally have "x + real k * pi < pi * 2 ^ n"
      by (simp add: mult.commute)
    then have lt: "?y k < pi"
      by (simp add: pos_divide_less_eq)
    have gt: "0 < ?y k"
      using assms(1) by (intro divide_pos_pos add_pos_nonneg) simp_all
    have nz: "sin (?y k) \<noteq> 0"
      using sin_gt_zero [OF gt lt] by simp
    have e1: "?y k / 2 = (x + real k * pi) / 2 ^ Suc n"
      by simp
    have "(?y k + pi) / 2 = ((x + real k * pi) + 2 ^ n * pi) / 2 ^ n / 2"
      by (simp add: add_divide_distrib)
    also have "\<dots> = (x + real (k + 2 ^ n) * pi) / 2 ^ Suc n"
      by (simp add: algebra_simps)
    finally have e2: "(?y k + pi) / 2 = (x + real (k + 2 ^ n) * pi) / 2 ^ Suc n" .
    show ?thesis
      using inv_sin_sq_half [OF nz] unfolding e1 e2 .
  qed
  have "(\<Sum>k<2 ^ n. 1 / (sin (?y k))\<^sup>2)
          = (\<Sum>k<2 ^ n. (1 / (sin ((x + real k * pi) / 2 ^ Suc n))\<^sup>2
                   + 1 / (sin ((x + real (k + 2 ^ n) * pi) / 2 ^ Suc n))\<^sup>2) / 4)"
    using step by (intro sum.cong) simp_all
  also have "\<dots> = ((\<Sum>k<2 ^ n. 1 / (sin ((x + real k * pi) / 2 ^ Suc n))\<^sup>2)
                   + (\<Sum>k<2 ^ n. 1 / (sin ((x + real (k + 2 ^ n) * pi) / 2 ^ Suc n))\<^sup>2)) / 4"
    by (rule sum_add_div)
  also have "\<dots> = (\<Sum>k<2 * 2 ^ n. 1 / (sin ((x + real k * pi) / 2 ^ Suc n))\<^sup>2) / 4"
    by (simp only: sum_split_double [where M = "2 ^ n" and f = "\<lambda>k. 1 / (sin ((x + real k * pi) / 2 ^ Suc n))\<^sup>2"])
  finally have "(\<Sum>k<2 ^ n. 1 / (sin (?y k))\<^sup>2)
                  = (\<Sum>k<2 ^ Suc n. 1 / (sin ((x + real k * pi) / 2 ^ Suc n))\<^sup>2) / 4"
    by (simp only: power_Suc)
  then have "(\<Sum>k<2 ^ n. 1 / (sin (?y k))\<^sup>2) / 4 ^ n
                  = (\<Sum>k<2 ^ Suc n. 1 / (sin ((x + real k * pi) / 2 ^ Suc n))\<^sup>2) / 4 ^ Suc n"
    by (rule div_pow_step)
  then show ?case
    using Suc.IH by (simp only:)
qed


lemma inv_sq_le_inv_sin_sq:
  fixes y :: real
  assumes "0 < y" and "y < pi"
  shows "1 / y\<^sup>2 \<le> 1 / (sin y)\<^sup>2"
proof -
  have pos: "0 < sin y"
    using assms by (rule sin_gt_zero)
  have "sin y \<le> y"
    using assms(1) by (intro sin_x_le_x) simp
  then have "(sin y)\<^sup>2 \<le> y\<^sup>2"
    using pos by (intro power_mono) simp_all
  moreover have "0 < (sin y)\<^sup>2"
    using pos by simp
  ultimately show ?thesis
    by (intro frac_le) simp_all
qed

lemma inv_sq_le_inv_sin_sq_reflected:
  fixes y :: real
  assumes "0 < y" and "y < pi"
  shows "1 / (pi - y)\<^sup>2 \<le> 1 / (sin y)\<^sup>2"
  using inv_sq_le_inv_sin_sq [of "pi - y"] assms by simp

lemma odd_sum_pow2_le_one:
  "(\<Sum>k<2 ^ m. 8 / ((2 * real k + 1)\<^sup>2 * pi\<^sup>2)) \<le> 1"
proof -
  define \<theta> :: "nat \<Rightarrow> real" where "\<theta> k = (2 * real k + 1) * pi / 2 ^ (m + 2)" for k
  define c :: "nat \<Rightarrow> real" where "c k = 4 ^ (m + 2) / ((2 * real k + 1)\<^sup>2 * pi\<^sup>2)" for k
  have \<theta>_eq: "(pi / 2 + real k * pi) / 2 ^ Suc m = \<theta> k" for k
    by (simp add: \<theta>_def field_simps)
  have \<theta>_pos: "0 < \<theta> k" for k
    unfolding \<theta>_def by (intro divide_pos_pos mult_pos_pos) simp_all
  have \<theta>_lt: "\<theta> k < pi" if "k < 2 * 2 ^ m" for k
  proof -
    have "Suc (2 * k) < 2 ^ (m + 2)"
      using that by simp
    then have "real (Suc (2 * k)) < real (2 ^ (m + 2))"
      by (simp only: of_nat_less_iff)
    then have "2 * real k + 1 < 2 ^ (m + 2)"
      by simp
    then have "(2 * real k + 1) * pi < 2 ^ (m + 2) * pi"
      by (intro mult_strict_right_mono) simp_all
    then show ?thesis
      by (simp add: \<theta>_def pos_divide_less_eq mult.commute)
  qed
  have "((2::real) ^ (m + 2))\<^sup>2 = (2\<^sup>2) ^ (m + 2)"
    by (simp only: power_mult [symmetric] mult.commute)
  then have four: "((2::real) ^ (m + 2))\<^sup>2 = 4 ^ (m + 2)"
    by simp
  have c_eq: "1 / (\<theta> k)\<^sup>2 = c k" for k
    unfolding \<theta>_def c_def by (simp only: power_divide four power_mult_distrib) simp
  have refl: "pi - \<theta> (k + 2 ^ m) = \<theta> (2 ^ m - Suc k)" if "k < 2 ^ m" for k
  proof -
    have "real (2 ^ m - Suc k) = 2 ^ m - real k - 1"
      using that by (simp add: of_nat_diff)
    then have a: "2 * real (2 ^ m - Suc k) + 1 = 2 * 2 ^ m - 2 * real k - 1"
      by simp
    have "pi - (2 * real (k + 2 ^ m) + 1) * pi / 2 ^ (m + 2)
            = (2 ^ (m + 2) * pi - (2 * real (k + 2 ^ m) + 1) * pi) / 2 ^ (m + 2)"
      by (simp add: diff_divide_distrib)
    also have "2 ^ (m + 2) * pi - (2 * real (k + 2 ^ m) + 1) * pi
                 = (2 * 2 ^ m - 2 * real k - 1) * pi"
      by (simp add: algebra_simps)
    finally show ?thesis
      unfolding \<theta>_def by (simp only: a)
  qed
  have "1 / (sin (pi / 2))\<^sup>2
          = (\<Sum>k<2 ^ Suc m. 1 / (sin ((pi / 2 + real k * pi) / 2 ^ Suc m))\<^sup>2) / 4 ^ Suc m"
    by (rule inv_sin_sq_sum) (use pi_gt_zero in simp_all)
  then have "1 = (\<Sum>k<2 ^ Suc m. 1 / (sin (\<theta> k))\<^sup>2) / 4 ^ Suc m"
    by (simp only: \<theta>_eq sin_pi_half power_one div_by_1)
  then have "(\<Sum>k<2 ^ Suc m. 1 / (sin (\<theta> k))\<^sup>2) = 4 ^ Suc m"
    by (simp add: field_simps)
  then have total: "(\<Sum>k<2 * 2 ^ m. 1 / (sin (\<theta> k))\<^sup>2) = 4 ^ Suc m"
    by (simp only: power_Suc)
  have lower: "(\<Sum>k<2 ^ m. c k) \<le> (\<Sum>k<2 ^ m. 1 / (sin (\<theta> k))\<^sup>2)"
  proof (rule sum_mono)
    fix k assume "k \<in> {..<(2::nat) ^ m}"
    then have "k < 2 * 2 ^ m" by simp
    then show "c k \<le> 1 / (sin (\<theta> k))\<^sup>2"
      using inv_sq_le_inv_sin_sq [OF \<theta>_pos \<theta>_lt] by (simp only: c_eq)
  qed
  have "(\<Sum>k<2 ^ m. c (2 ^ m - Suc k)) \<le> (\<Sum>k<2 ^ m. 1 / (sin (\<theta> (k + 2 ^ m)))\<^sup>2)"
  proof (rule sum_mono)
    fix k assume "k \<in> {..<(2::nat) ^ m}"
    then have k: "k < 2 ^ m" by simp
    then have "k + 2 ^ m < 2 * 2 ^ m" by simp
    then have "1 / (pi - \<theta> (k + 2 ^ m))\<^sup>2 \<le> 1 / (sin (\<theta> (k + 2 ^ m)))\<^sup>2"
      by (intro inv_sq_le_inv_sin_sq_reflected \<theta>_pos \<theta>_lt)
    then show "c (2 ^ m - Suc k) \<le> 1 / (sin (\<theta> (k + 2 ^ m)))\<^sup>2"
      by (simp only: refl [OF k] c_eq)
  qed
  moreover have "(\<Sum>k<2 ^ m. c (2 ^ m - Suc k)) = (\<Sum>k<2 ^ m. c k)"
    by (rule sum.nat_diff_reindex)
  ultimately have upper: "(\<Sum>k<2 ^ m. c k) \<le> (\<Sum>k<2 ^ m. 1 / (sin (\<theta> (k + 2 ^ m)))\<^sup>2)"
    by simp
  have "2 * (\<Sum>k<2 ^ m. c k) \<le> (\<Sum>k<2 * 2 ^ m. 1 / (sin (\<theta> k))\<^sup>2)"
    using lower upper
    by (simp only: sum_split_double [where M = "2 ^ m" and f = "\<lambda>k. 1 / (sin (\<theta> k))\<^sup>2"])
  then have le: "2 * (\<Sum>k<2 ^ m. c k) \<le> 4 ^ Suc m"
    by (simp only: total)
  have "(\<Sum>k<2 ^ m. 8 / ((2 * real k + 1)\<^sup>2 * pi\<^sup>2)) = (\<Sum>k<2 ^ m. 2 * c k / 4 ^ Suc m)"
    by (rule sum.cong) (simp_all add: c_def)
  also have "\<dots> = 2 * (\<Sum>k<2 ^ m. c k) / 4 ^ Suc m"
    by (simp only: sum_divide_distrib sum_distrib_left)
  also have "\<dots> \<le> 1"
    using le by (simp only: pos_divide_le_eq zero_less_power zero_less_numeral mult_1)
  finally show ?thesis .
qed

lemma odd_sum_le_one: "(\<Sum>k<N. 8 / ((2 * real k + 1)\<^sup>2 * pi\<^sup>2)) \<le> 1"
proof -
  have "N \<le> 2 ^ N"
    by (simp add: less_imp_le)
  then have "(\<Sum>k<N. 8 / ((2 * real k + 1)\<^sup>2 * pi\<^sup>2)) \<le> (\<Sum>k<2 ^ N. 8 / ((2 * real k + 1)\<^sup>2 * pi\<^sup>2))"
    by (intro sum_mono2) auto
  also have "\<dots> \<le> 1"
    by (rule odd_sum_pow2_le_one)
  finally show ?thesis .
qed


subsection \<open>The array of the thin slab\<close>

lemma thin_slab_infsum_eq:
  assumes "L \<noteq> 0"
  shows "thin_slab_infsum D L N t = Fin (thin_slab_series D L (nat N) t)"
proof -
  have "thin_slab_infsum D L N t
          = foldl (\<lambda>s n. fadd s (Fin (8 / ((2 * real n + 1)\<^sup>2 * pi\<^sup>2)
                     * exp (- D * (2 * real n + 1)\<^sup>2 * pi\<^sup>2 * t / (4 * L\<^sup>2)))))
              (Fin 0) [0..<nat N]"
    using assms by (simp add: thin_slab_infsum_def Let_def)
  also have "\<dots> = Fin (0 + (\<Sum>n\<leftarrow>[0..<nat N]. 8 / ((2 * real n + 1)\<^sup>2 * pi\<^sup>2)
                     * exp (- D * (2 * real n + 1)\<^sup>2 * pi\<^sup>2 * t / (4 * L\<^sup>2))))"
    by (rule foldl_fadd_Fin)
  also have "\<dots> = Fin (thin_slab_series D L (nat N) t)"
    by (simp add: thin_slab_series_def interv_sum_list_conv_sum_set_nat atLeast0LessThan)
  finally show ?thesis .
qed

lemma series_nonneg: "0 \<le> thin_slab_series D a N t"
  unfolding thin_slab_series_def by (intro sum_nonneg mult_nonneg_nonneg) simp_all

lemma series_antimono:
  assumes "0 \<le> D" and "t \<le> t'"
  shows "thin_slab_series D a N t' \<le> thin_slab_series D a N t"
  unfolding thin_slab_series_def
proof (intro sum_mono mult_left_mono)
  fix n
  have "0 \<le> D * (2 * real n + 1)\<^sup>2 * pi\<^sup>2 / (4 * a\<^sup>2)"
    using assms(1) by simp
  then have "D * (2 * real n + 1)\<^sup>2 * pi\<^sup>2 / (4 * a\<^sup>2) * t
               \<le> D * (2 * real n + 1)\<^sup>2 * pi\<^sup>2 / (4 * a\<^sup>2) * t'"
    using assms(2) by (rule mult_left_mono [rotated])
  then show "exp (- D * (2 * real n + 1)\<^sup>2 * pi\<^sup>2 * t' / (4 * a\<^sup>2))
               \<le> exp (- D * (2 * real n + 1)\<^sup>2 * pi\<^sup>2 * t / (4 * a\<^sup>2))"
    by simp
qed simp

lemma series_zero: "thin_slab_series D a N 0 = (\<Sum>n<N. 8 / ((2 * real n + 1)\<^sup>2 * pi\<^sup>2))"
  by (simp add: thin_slab_series_def)

lemma series_le_one:
  assumes "0 \<le> D" and "0 \<le> t"
  shows "thin_slab_series D a N t \<le> 1"
proof -
  have "thin_slab_series D a N t \<le> thin_slab_series D a N 0"
    using assms by (rule series_antimono)
  also have "\<dots> \<le> 1"
    unfolding series_zero by (rule odd_sum_le_one)
  finally show ?thesis .
qed

lemma series_zero_ge:
  assumes "0 < N"
  shows "8 / pi\<^sup>2 \<le> thin_slab_series D a N 0"
proof -
  have "(\<lambda>n. 8 / ((2 * real n + 1)\<^sup>2 * pi\<^sup>2)) 0 \<le> (\<Sum>n<N. 8 / ((2 * real n + 1)\<^sup>2 * pi\<^sup>2))"
    using assms by (intro member_le_sum) simp_all
  then show ?thesis
    by (simp add: series_zero)
qed

lemma series_decay:
  assumes "0 \<le> D" and "0 \<le> t"
  shows "thin_slab_series D a N t \<le> exp (- D * pi\<^sup>2 * t / (4 * a\<^sup>2))"
proof -
  have each: "8 / ((2 * real n + 1)\<^sup>2 * pi\<^sup>2)
                * exp (- D * (2 * real n + 1)\<^sup>2 * pi\<^sup>2 * t / (4 * a\<^sup>2))
              \<le> 8 / ((2 * real n + 1)\<^sup>2 * pi\<^sup>2) * exp (- D * pi\<^sup>2 * t / (4 * a\<^sup>2))" for n
  proof (intro mult_left_mono)
    have "1 \<le> (2 * real n + 1)\<^sup>2"
      by (simp add: power2_eq_square algebra_simps)
    moreover have "0 \<le> D * pi\<^sup>2 * t / (4 * a\<^sup>2)"
      using assms by simp
    ultimately have "D * pi\<^sup>2 * t / (4 * a\<^sup>2) * 1 \<le> D * pi\<^sup>2 * t / (4 * a\<^sup>2) * (2 * real n + 1)\<^sup>2"
      by (intro mult_left_mono)
    then show "exp (- D * (2 * real n + 1)\<^sup>2 * pi\<^sup>2 * t / (4 * a\<^sup>2))
                 \<le> exp (- D * pi\<^sup>2 * t / (4 * a\<^sup>2))"
      by (simp add: algebra_simps)
  qed simp
  have "thin_slab_series D a N t
          \<le> (\<Sum>n<N. 8 / ((2 * real n + 1)\<^sup>2 * pi\<^sup>2) * exp (- D * pi\<^sup>2 * t / (4 * a\<^sup>2)))"
    unfolding thin_slab_series_def by (intro sum_mono each)
  also have "\<dots> = (\<Sum>n<N. 8 / ((2 * real n + 1)\<^sup>2 * pi\<^sup>2)) * exp (- D * pi\<^sup>2 * t / (4 * a\<^sup>2))"
    by (simp only: sum_distrib_right)
  also have "\<dots> \<le> 1 * exp (- D * pi\<^sup>2 * t / (4 * a\<^sup>2))"
    by (intro mult_right_mono odd_sum_le_one) simp
  finally show ?thesis by simp
qed


lemma linspace_nth:
  assumes "i < n"
  shows "linspace a b n ! i = a + real i * ((b - a) / real (n - 1))"
  using assms by (auto simp add: linspace_def)

lemma thin_slab_cc:
  assumes "th \<noteq> 0"
  shows "diffusionThinSlab l th mx N ts
           = (linspace 0 mx ts,
              map (\<lambda>t. Fin (thin_slab_series (10 powr l) (th / 2000000) (nat N) (t * 3600)))
                (linspace 0 mx ts))"
  using assms by (simp add: diffusionThinSlab_def Let_def thin_slab_infsum_eq o_def)

lemma thin_slab_nth:
  assumes "th \<noteq> 0" and "i < ts"
  shows "snd (diffusionThinSlab l th mx N ts) ! i
           = Fin (thin_slab_series (10 powr l) (th / 2000000) (nat N)
                    (real i * (mx / real (ts - 1)) * 3600))"
  using assms by (simp add: thin_slab_cc linspace_nth)

lemma thin_slab_last:
  assumes "th \<noteq> 0" and "2 \<le> ts"
  shows "last (snd (diffusionThinSlab l th mx N ts))
           = Fin (thin_slab_series (10 powr l) (th / 2000000) (nat N) (mx * 3600))"
proof -
  have ne: "linspace 0 mx ts \<noteq> []"
    using assms(2) by (metis length_linspace list.size(3) not_numeral_le_zero)
  have "last (linspace 0 mx ts) = linspace 0 mx ts ! (ts - 1)"
    using ne by (simp add: last_conv_nth)
  also have "\<dots> = real (ts - 1) * (mx / real (ts - 1))"
    using assms(2) by (simp add: linspace_nth)
  also have "\<dots> = mx"
    using assms(2) by simp
  finally show ?thesis
    using ne assms(1) by (simp add: thin_slab_cc last_map)
qed


text \<open>
  C3 (amended): for every log10 diffusivity, every thickness other than zero, every
  non-negative \<open>max_time_hours\<close> and every number of series terms, the array returned by
  \<open>diffusionThinSlab\<close> has one entry per time step, is bounded in \<open>[0,1]\<close> and is
  non-increasing in time; its value at \<open>t = 0\<close> is the partial sum of
  \<open>8 / ((2n+1)\<^sup>2 \<pi>\<^sup>2)\<close>, which is at least \<open>8 / \<pi>\<^sup>2\<close> as soon as there is one term; and,
  with at least two time steps, for sufficiently large \<open>max_time_hours\<close> the final value is
  below any positive bound, so it approaches 0.
\<close>

theorem diffusionThinSlab_retained_fraction:
  assumes "th \<noteq> 0" and "0 \<le> mx"
  shows "length (snd (diffusionThinSlab l th mx N ts)) = ts
       \<and> (\<forall>i<ts. fle (Fin 0) (snd (diffusionThinSlab l th mx N ts) ! i)
                  \<and> fle (snd (diffusionThinSlab l th mx N ts) ! i) (Fin 1))
       \<and> (\<forall>i j. i \<le> j \<and> j < ts \<longrightarrow>
              fle (snd (diffusionThinSlab l th mx N ts) ! j) (snd (diffusionThinSlab l th mx N ts) ! i))
       \<and> (0 < ts \<longrightarrow> snd (diffusionThinSlab l th mx N ts) ! 0
                        = Fin (\<Sum>n<nat N. 8 / ((2 * real n + 1)\<^sup>2 * pi\<^sup>2)))
       \<and> (0 < ts \<and> 0 < N \<longrightarrow> fle (Fin (8 / pi\<^sup>2)) (snd (diffusionThinSlab l th mx N ts) ! 0))
       \<and> (2 \<le> ts \<longrightarrow>
            (\<forall>\<epsilon>>0. \<exists>M. \<forall>mx'\<ge>M. fle (last (snd (diffusionThinSlab l th mx' N ts))) (Fin \<epsilon>)))"
proof -
  let ?D = "10 powr l"
  let ?a = "th / 2000000"
  let ?S = "thin_slab_series ?D ?a (nat N)"
  let ?t = "\<lambda>i. real i * (mx / real (ts - 1)) * 3600"
  have D: "0 \<le> ?D" by simp
  have nth: "snd (diffusionThinSlab l th mx N ts) ! i = Fin (?S (?t i))" if "i < ts" for i
    using assms(1) that by (rule thin_slab_nth)
  have t_nonneg: "0 \<le> ?t i" for i
    using assms(2) by simp
  have t_mono: "?t i \<le> ?t j" if "i \<le> j" for i j
    using that assms(2) by (intro mult_right_mono) simp_all
  have one: "length (snd (diffusionThinSlab l th mx N ts)) = ts"
    using assms(1) by (simp add: thin_slab_cc)
  have two: "\<forall>i<ts. fle (Fin 0) (snd (diffusionThinSlab l th mx N ts) ! i)
                  \<and> fle (snd (diffusionThinSlab l th mx N ts) ! i) (Fin 1)"
  proof (intro allI impI)
    fix i assume i: "i < ts"
    have "0 \<le> ?S (?t i)"
      by (rule series_nonneg)
    moreover have "?S (?t i) \<le> 1"
      using D t_nonneg by (rule series_le_one)
    ultimately show "fle (Fin 0) (snd (diffusionThinSlab l th mx N ts) ! i)
                  \<and> fle (snd (diffusionThinSlab l th mx N ts) ! i) (Fin 1)"
      by (simp only: nth [OF i] fle.simps)
  qed
  have three: "\<forall>i j. i \<le> j \<and> j < ts \<longrightarrow>
              fle (snd (diffusionThinSlab l th mx N ts) ! j) (snd (diffusionThinSlab l th mx N ts) ! i)"
  proof (intro allI impI)
    fix i j assume ij: "i \<le> j \<and> j < ts"
    then have "i < ts" "j < ts" by simp_all
    moreover have "?S (?t j) \<le> ?S (?t i)"
      using D t_mono ij by (intro series_antimono) simp_all
    ultimately show "fle (snd (diffusionThinSlab l th mx N ts) ! j)
                         (snd (diffusionThinSlab l th mx N ts) ! i)"
      by (simp add: nth)
  qed
  have four: "0 < ts \<longrightarrow> snd (diffusionThinSlab l th mx N ts) ! 0
                        = Fin (\<Sum>n<nat N. 8 / ((2 * real n + 1)\<^sup>2 * pi\<^sup>2))"
    using nth [of 0] by (simp add: series_zero)
  have five: "0 < ts \<and> 0 < N \<longrightarrow> fle (Fin (8 / pi\<^sup>2)) (snd (diffusionThinSlab l th mx N ts) ! 0)"
    using nth [of 0] series_zero_ge [of "nat N" ?D ?a] by simp
  have six: "\<forall>\<epsilon>>0. \<exists>M. \<forall>mx'\<ge>M. fle (last (snd (diffusionThinSlab l th mx' N ts))) (Fin \<epsilon>)"
    if ts: "2 \<le> ts"
  proof (intro allI impI)
    fix \<epsilon> :: real assume eps: "0 < \<epsilon>"
    define K where "K = ?D * pi\<^sup>2 * 3600 / (4 * ?a\<^sup>2)"
    have K: "0 < K"
      using assms(1) unfolding K_def by (intro divide_pos_pos mult_pos_pos) simp_all
    define M where "M = max 0 (- ln \<epsilon> / K)"
    have "fle (last (snd (diffusionThinSlab l th mx' N ts))) (Fin \<epsilon>)" if "M \<le> mx'" for mx'
    proof -
      have pos: "0 \<le> mx'" and big: "- ln \<epsilon> / K \<le> mx'"
        using that by (simp_all add: M_def)
      have "K * (- ln \<epsilon> / K) \<le> K * mx'"
        using big K by (intro mult_left_mono) simp_all
      then have "- ln \<epsilon> \<le> K * mx'"
        using K by simp
      then have "- (K * mx') \<le> ln \<epsilon>"
        by simp
      then have "exp (- (K * mx')) \<le> \<epsilon>"
        using eps by (metis exp_le_cancel_iff exp_ln)
      moreover have "?S (mx' * 3600) \<le> exp (- ?D * pi\<^sup>2 * (mx' * 3600) / (4 * ?a\<^sup>2))"
        using D pos by (intro series_decay) simp_all
      moreover have "- ?D * pi\<^sup>2 * (mx' * 3600) / (4 * ?a\<^sup>2) = - (K * mx')"
        by (simp add: K_def)
      ultimately have "?S (mx' * 3600) \<le> \<epsilon>"
        by simp
      then show ?thesis
        using thin_slab_last [OF assms(1) ts] by simp
    qed
    then show "\<exists>M. \<forall>mx'\<ge>M. fle (last (snd (diffusionThinSlab l th mx' N ts))) (Fin \<epsilon>)"
      by blast
  qed
  show ?thesis
    using one two three four five six by blast
qed


theorem diffusionThinSlab_retained_fraction_witness:
  "length (snd (diffusionThinSlab (- 12) 2000 2000 200 300)) = 300
   \<and> fle (Fin 0) (snd (diffusionThinSlab (- 12) 2000 2000 200 300) ! 150)
   \<and> fle (snd (diffusionThinSlab (- 12) 2000 2000 200 300) ! 150) (Fin 1)
   \<and> fle (snd (diffusionThinSlab (- 12) 2000 2000 200 300) ! 299)
           (snd (diffusionThinSlab (- 12) 2000 2000 200 300) ! 150)
   \<and> fle (Fin (8 / pi\<^sup>2)) (snd (diffusionThinSlab (- 12) 2000 2000 200 300) ! 0)"
proof -
  have "(2000::real) \<noteq> 0" and "(0::real) \<le> 2000"
    by simp_all
  from diffusionThinSlab_retained_fraction [OF this, of "- 12" 200 300]
  show ?thesis
    by (elim conjE) simp
qed

text \<open>
  C3 (as stated) fails: the array is the fraction that remains, not the uptake. With one
  series term and the two times 0 and 1 hour, the value at \<open>t = 0\<close> is \<open>8 / \<pi>\<^sup>2\<close>, above one
  half and not near 0, and the value after one hour is smaller, so the array decreases.
\<close>

theorem diffusionThinSlab_decreasing_counterexample:
  "diffusionThinSlab (- 12) 2000 1 1 2
     = ([0, 1],
        [Fin (8 / pi\<^sup>2),
         Fin (8 * exp (- (900 * (pi\<^sup>2 * 10 powr - 12) / (1 / 1000)\<^sup>2)) / pi\<^sup>2)])
   \<and> \<not> fle (Fin (8 / pi\<^sup>2))
            (Fin (8 * exp (- (900 * (pi\<^sup>2 * 10 powr - 12) / (1 / 1000)\<^sup>2)) / pi\<^sup>2))
   \<and> 1 / 2 < 8 / pi\<^sup>2"
proof -
  have one: "diffusionThinSlab (- 12) 2000 1 1 2
     = ([0, 1],
        [Fin (8 / pi\<^sup>2),
         Fin (8 * exp (- (900 * (pi\<^sup>2 * 10 powr - 12) / (1 / 1000)\<^sup>2)) / pi\<^sup>2)])"
    by (simp add: diffusionThinSlab_def Let_def thin_slab_infsum_def linspace_2)
  have "0 < 900 * (pi\<^sup>2 * 10 powr - 12) / (1 / 1000)\<^sup>2"
    by (intro divide_pos_pos mult_pos_pos) simp_all
  then have "exp (- (900 * (pi\<^sup>2 * 10 powr - 12) / (1 / 1000)\<^sup>2)) < 1"
    by simp
  then have "8 * exp (- (900 * (pi\<^sup>2 * 10 powr - 12) / (1 / 1000)\<^sup>2)) < 8 * 1"
    by (intro mult_strict_left_mono) simp_all
  then have "8 * exp (- (900 * (pi\<^sup>2 * 10 powr - 12) / (1 / 1000)\<^sup>2)) / pi\<^sup>2 < 8 / pi\<^sup>2"
    by (simp add: divide_strict_right_mono)
  then have two: "\<not> fle (Fin (8 / pi\<^sup>2))
            (Fin (8 * exp (- (900 * (pi\<^sup>2 * 10 powr - 12) / (1 / 1000)\<^sup>2)) / pi\<^sup>2))"
    by simp
  have "pi\<^sup>2 < 4\<^sup>2"
    using pi_less_4 pi_gt_zero by (intro power_strict_mono) simp_all
  then have three: "1 / 2 < 8 / pi\<^sup>2"
    by (simp add: field_simps)
  show ?thesis
    using one two three by blast
qed

end
